theory Spec2Isabelle
  imports Complex_Main "HOL-Library.Multiset" "HOL-Library.AList" "HOL-Library.Log_Nat"
begin

section \<open>Data model\<close>

text \<open>
  The module \<^verbatim>\<open>canada_tax/processor.py\<close> computes with Python \<^verbatim>\<open>Decimal\<close> values. A finite
  decimal is modelled by its numeric value, a rational: \<^verbatim>\<open>Decimal("0.00")\<close> is \<open>0\<close>, and
  \<^verbatim>\<open>==\<close> on decimals compares values. The module never changes the arithmetic context, so
  \<^verbatim>\<open>+\<close> and \<^verbatim>\<open>*\<close> are those of the default context: the exact result, rounded to 28
  significant digits, a tie going to the even neighbour (\<^verbatim>\<open>ROUND_HALF_EVEN\<close>). The
  exponent limits of the context (\<open>\<plusminus>999999\<close>) are not modelled.
\<close>

type_synonym decimal = rat

text \<open>The precision of the default context.\<close>

definition context_prec :: nat where
  "context_prec = 28"

text \<open>
  The adjusted exponent of a value that is not zero: the \<open>e\<close> with
  \<open>10 ^ e \<le> \<bar>x\<bar> < 10 ^ (e + 1)\<close>. \<^term>\<open>floorlog 10 n\<close> is the number of decimal digits of
  \<open>n\<close>.
\<close>

definition adjusted :: "rat \<Rightarrow> int" where
  "adjusted x =
     (if 1 \<le> \<bar>x\<bar> then int (floorlog 10 (nat \<lfloor>\<bar>x\<bar>\<rfloor>)) - 1
      else - int (floorlog 10 (nat (\<lceil>1 / \<bar>x\<bar>\<rceil> - 1))))"

definition pow10 :: "int \<Rightarrow> rat" where
  "pow10 k = (if 0 \<le> k then 10 ^ nat k else 1 / 10 ^ nat (- k))"

text \<open>The nearest integer, a tie going to the even one.\<close>

definition round_half_even :: "rat \<Rightarrow> int" where
  "round_half_even y =
     (let f = \<lfloor>y\<rfloor>; d = y - of_int f
      in if d < 1 / 2 then f
         else if 1 / 2 < d then f + 1
         else if even f then f else f + 1)"

text \<open>
  Rounding to the context: the value is cut to \<open>context_prec\<close> significant digits, that
  is to a multiple of \<open>10 ^ (adjusted x - (context_prec - 1))\<close>.
\<close>

definition dec_round :: "rat \<Rightarrow> decimal" where
  "dec_round x =
     (if x = 0 then 0
      else let q = pow10 (adjusted x - (int context_prec - 1))
           in of_int (round_half_even (x / q)) * q)"

text \<open>\<^verbatim>\<open>Decimal.__add__\<close> and \<^verbatim>\<open>Decimal.__mul__\<close>.\<close>

definition dec_add :: "decimal \<Rightarrow> decimal \<Rightarrow> decimal" where
  "dec_add a b = dec_round (a + b)"

definition dec_mul :: "decimal \<Rightarrow> decimal \<Rightarrow> decimal" where
  "dec_mul a b = dec_round (a * b)"

text \<open>
  A \<^verbatim>\<open>CanadianTaxRate\<close> row. Foreign keys are the primary keys of the rows they point
  to; \<open>taxZone\<close> and \<open>taxCountry\<close> may be null.
\<close>

record TaxRate =
  taxCode :: string
  percentage :: decimal
  compound :: bool
  compound_order :: int
  override :: bool
  taxClass :: nat
  taxZone :: "nat option"
  taxCountry :: "nat option"

type_synonym receipt = "(string \<times> decimal) list"

section \<open>The rate reducer \<^verbatim>\<open>tax_rate_list\<close>\<close>

text \<open>
  The first loop of \<^verbatim>\<open>tax_rate_list\<close> (lines 149-151): every regular rate is appended
  to \<^verbatim>\<open>receipt_data\<close> and added to \<^verbatim>\<open>totalrate\<close>.
\<close>

fun add_regular :: "TaxRate list \<Rightarrow> decimal \<times> receipt \<Rightarrow> decimal \<times> receipt" where
  "add_regular [] (totalrate, receipt_data) = (totalrate, receipt_data)"
| "add_regular (rate # rates) (totalrate, receipt_data) =
     add_regular rates
       (dec_add totalrate (percentage rate),
        receipt_data @ [(taxCode rate, percentage rate)])"

text \<open>
  The second loop (lines 153-156): a compound rate is applied on top of the total
  accumulated so far.
\<close>

fun add_compound :: "TaxRate list \<Rightarrow> decimal \<times> receipt \<Rightarrow> decimal \<times> receipt" where
  "add_compound [] (totalrate, receipt_data) = (totalrate, receipt_data)"
| "add_compound (rate # rates) (totalrate, receipt_data) =
     (let percentage' = dec_add (percentage rate) (dec_mul (percentage rate) totalrate)
      in add_compound rates
           (dec_add totalrate percentage', receipt_data @ [(taxCode rate, percentage')]))"

text \<open>
  \<^verbatim>\<open>tax_rate_list\<close> (lines 130-158). Python's \<^verbatim>\<open>sorted\<close> is a stable ascending sort, as
  \<^const>\<open>sort_key\<close> is.
\<close>

definition tax_rate_list :: "TaxRate list \<Rightarrow> decimal \<times> receipt" where
  "tax_rate_list rates =
     (if rates = [] then (0, [])
      else case filter override rates of
        rate # _ \<Rightarrow> (percentage rate, [(taxCode rate, percentage rate)])
      | [] \<Rightarrow>
          (let regular_rates = filter (\<lambda>r. \<not> compound r) rates;
               compound_rates = sort_key compound_order (filter compound rates)
           in add_compound compound_rates (add_regular regular_rates (0, []))))"

text \<open>
  The entries that the second loop of \<^verbatim>\<open>tax_rate_list\<close> appends for a list of compound
  rates, from a starting total.
\<close>

fun compound_entries :: "TaxRate list \<Rightarrow> decimal \<Rightarrow> receipt" where
  "compound_entries [] t = []"
| "compound_entries (r # rs) t =
     (let p = dec_add (percentage r) (dec_mul (percentage r) t)
      in (taxCode r, p) # compound_entries rs (dec_add t p))"

section \<open>The data sources\<close>

text \<open>
  The rows of the collaborating models that the processor reads: \<^verbatim>\<open>TaxClass\<close>,
  \<^verbatim>\<open>Country\<close>, \<^verbatim>\<open>AdminArea\<close>, \<^verbatim>\<open>Contact\<close> with its address book, the order and its line
  items. Only the attributes that \<^verbatim>\<open>processor.py\<close> touches are kept. A string attribute
  that may be \<^verbatim>\<open>None\<close> is the empty string: the code only tests such values for truth.
\<close>

record TaxClass =
  class_id :: nat
  title :: string

record Country =
  country_id :: nat
  iso2_code :: string

record AdminArea =
  area_id :: nat
  area_name :: string
  area_abbrev :: "string option"
  area_country :: nat

record Address =
  state :: string
  country :: Country

record Contact =
  contact_user :: nat
  shipping_address :: "Address option"
  billing_address :: "Address option"

record User =
  user_id :: nat
  is_authenticated :: bool

record Product =
  taxable :: bool
  product_taxClass :: "TaxClass option"

record OrderItem =
  product :: Product
  sub_total :: decimal

record Order =
  ship_country :: string
  ship_state :: string
  bill_country :: string
  bill_state :: string
  shipping_sub_total :: decimal
  orderitem_set :: "OrderItem list"

text \<open>The tables, and the store's \<^verbatim>\<open>Config.objects.get_current().sales_country\<close>.\<close>

record Database =
  countries :: "Country list"
  admin_areas :: "AdminArea list"
  tax_classes :: "TaxClass list"
  tax_rates :: "TaxRate list"
  contacts :: "Contact list"
  sales_country :: "Country option"

text \<open>The four \<^verbatim>\<open>config_value('TAX', ...)\<close> settings.\<close>

record Config =
  TAX_AREA_ADDRESS :: string
  TAX_SHIPPING_CANADIAN :: bool
  TAX_CLASS :: string
  TAX_SHIPPING_DETAILS_SEPARATE :: bool

text \<open>The processor object: \<^verbatim>\<open>self.order\<close> and \<^verbatim>\<open>self.user\<close>.\<close>

record Processor =
  order :: "Order option"
  user :: "User option"

text \<open>The \<^verbatim>\<open>taxclass\<close> argument of \<^verbatim>\<open>get_rate\<close>: absent, a name, or a class object.\<close>

datatype taxclass_arg = NoClass | ByName string | ByObject TaxClass

section \<open>Errors and logging\<close>

datatype error =
  DoesNotExist | MultipleObjectsReturned | ImproperlyConfigured
  | KeyError | AttributeError | TypeError

datatype log_level = DEBUG | INFO | ERROR

text \<open>A log record keeps the level and the format string; the arguments are dropped.\<close>

type_synonym log_entry = "log_level \<times> string"

text \<open>
  A computation that logs and may raise: the records written, in order, and the
  exception or the value. What was logged before an exception stays logged.
\<close>

type_synonym 'a logged = "log_entry list \<times> (error + 'a)"

definition bind_logged :: "'a logged \<Rightarrow> ('a \<Rightarrow> 'b logged) \<Rightarrow> 'b logged" where
  "bind_logged m f =
     (case m of
        (l, Inl e) \<Rightarrow> (l, Inl e)
      | (l, Inr x) \<Rightarrow> (case f x of (l', r) \<Rightarrow> (l @ l', r)))"

text \<open>
  \<^verbatim>\<open>Model.objects.get(...)\<close>: the one row that matches; \<^verbatim>\<open>DoesNotExist\<close> when none
  does, \<^verbatim>\<open>MultipleObjectsReturned\<close> when several do.
\<close>

definition objects_get :: "('a \<Rightarrow> bool) \<Rightarrow> 'a list \<Rightarrow> error + 'a" where
  "objects_get p rows =
     (case filter p rows of
        [] \<Rightarrow> Inl DoesNotExist
      | [x] \<Rightarrow> Inr x
      | _ \<Rightarrow> Inl MultipleObjectsReturned)"

text \<open>
  The \<^verbatim>\<open>__iexact\<close> lookup compares without regard to letter case. Lower-casing a
  letter \<^verbatim>\<open>A\<close>..\<^verbatim>\<open>Z\<close> (codes 65 to 90) sets bit 5 of its code.
\<close>

definition lower_char :: "char \<Rightarrow> char" where
  "lower_char c =
     (if 65 \<le> (of_char c :: nat) \<and> (of_char c :: nat) \<le> 90
      then (case c of Char b0 b1 b2 b3 b4 b5 b6 b7 \<Rightarrow> Char b0 b1 b2 b3 b4 True b6 b7)
      else c)"

definition iexact :: "string \<Rightarrow> string \<Rightarrow> bool" where
  "iexact a b = (map lower_char a = map lower_char b)"

text \<open>
  Two names that differ only in letter case: of the same length, and at every position
  the same character or a letter and its lower-case form.
\<close>

definition same_letter :: "char \<Rightarrow> char \<Rightarrow> bool" where
  "same_letter a b = (a = b \<or> lower_char a = b \<or> a = lower_char b)"

definition differ_only_in_case :: "string \<Rightarrow> string \<Rightarrow> bool" where
  "differ_only_in_case s t = list_all2 same_letter s t"

section \<open>Resolving the jurisdiction: \<^verbatim>\<open>_get_location\<close>\<close>

text \<open>Lines 32-45: the order's country and state strings, the country looked up.\<close>

definition location_of_order :: "Database \<Rightarrow> bool \<Rightarrow> Order \<Rightarrow> (string \<times> Country option) logged" where
  "location_of_order db calc_by_ship_address ord =
     (let country_str = (if calc_by_ship_address then ship_country ord else bill_country ord);
          area = (if calc_by_ship_address then ship_state ord else bill_state ord)
      in if country_str \<noteq> [] then
           (case objects_get (\<lambda>c. iso2_code c = country_str) (countries db) of
              Inr c \<Rightarrow> ([], Inr (area, Some c))
            | Inl e \<Rightarrow>
                if e = DoesNotExist
                then ([(ERROR, ''Couldn't find Country from string: %s'')], Inr (area, None))
                else ([], Inl e))
         else ([], Inr (area, None)))"

text \<open>
  Lines 47-64: the contact of the user. A contact without the address raises
  \<^verbatim>\<open>AttributeError\<close> at \<^verbatim>\<open>.state\<close> and at \<^verbatim>\<open>.country\<close>, which both handlers pass over.
\<close>

definition location_of_user :: "Database \<Rightarrow> bool \<Rightarrow> User \<Rightarrow> (string \<times> Country option) logged" where
  "location_of_user db calc_by_ship_address u =
     (case objects_get (\<lambda>c. contact_user c = user_id u) (contacts db) of
        Inr contact \<Rightarrow>
          (case (if calc_by_ship_address then shipping_address contact
                 else billing_address contact) of
             None \<Rightarrow> ([], Inr ([], None))
           | Some a \<Rightarrow> ([], Inr (state a, Some (country a))))
      | Inl e \<Rightarrow> if e = DoesNotExist then ([], Inr ([], None)) else ([], Inl e))"

text \<open>Lines 70-80: the area string looked up by name, then by abbreviation.\<close>

definition in_country :: "AdminArea \<Rightarrow> Country option \<Rightarrow> bool" where
  "in_country a c = (case c of None \<Rightarrow> False | Some c' \<Rightarrow> area_country a = country_id c')"

definition resolve_area :: "Database \<Rightarrow> string \<Rightarrow> Country option \<Rightarrow> AdminArea option logged" where
  "resolve_area db area c =
     (if area \<noteq> [] then
        (case objects_get (\<lambda>a. iexact (area_name a) area \<and> in_country a c) (admin_areas db) of
           Inr a \<Rightarrow> ([], Inr (Some a))
         | Inl e \<Rightarrow>
             if e \<noteq> DoesNotExist then ([], Inl e)
             else
               (case objects_get
                       (\<lambda>a. (case area_abbrev a of None \<Rightarrow> False | Some ab \<Rightarrow> iexact ab area)
                             \<and> in_country a c)
                       (admin_areas db) of
                  Inr a \<Rightarrow> ([], Inr (Some a))
                | Inl e' \<Rightarrow>
                    if e' = DoesNotExist
                    then ([(INFO, ''Couldn't find AdminArea from string: %s'')], Inr None)
                    else ([], Inl e')))
      else ([], Inr None))"

text \<open>
  \<^verbatim>\<open>_get_location\<close> (lines 26-81). An area string that is empty is returned as it is by
  the source and is false for the caller; it is \<open>None\<close> here.
\<close>

definition get_location :: "Database \<Rightarrow> Config \<Rightarrow> Processor \<Rightarrow> (AdminArea option \<times> Country option) logged" where
  "get_location db cfg self =
     (let calc_by_ship_address = (TAX_AREA_ADDRESS cfg = ''ship'')
      in bind_logged
           (case order self of
              Some ord \<Rightarrow> location_of_order db calc_by_ship_address ord
            | None \<Rightarrow>
                (case user self of
                   Some u \<Rightarrow>
                     if is_authenticated u then location_of_user db calc_by_ship_address u
                     else ([], Inr ([], None))
                 | None \<Rightarrow> ([], Inr ([], None))))
           (\<lambda>(area, c0).
              let c = (case c0 of None \<Rightarrow> sales_country db | Some c' \<Rightarrow> Some c')
              in bind_logged (resolve_area db area c) (\<lambda>area'. ([], Inr (area', c)))))"

text \<open>
  Whether \<^verbatim>\<open>get_rate\<close> gets past line 96: it has an area or a country, or
  \<^verbatim>\<open>_get_location\<close> returns.
\<close>

definition location_resolved :: "Database \<Rightarrow> Config \<Rightarrow> Processor \<Rightarrow> AdminArea option \<Rightarrow> Country option \<Rightarrow> bool" where
  "location_resolved db cfg self area c =
     (if area = None \<and> c = None
      then (case snd (get_location db cfg self) of Inl _ \<Rightarrow> False | Inr _ \<Rightarrow> True)
      else True)"

section \<open>Fetching the rates: \<^verbatim>\<open>get_rate\<close>\<close>

text \<open>What \<^verbatim>\<open>get_rate\<close> returns: the pair when \<^verbatim>\<open>get_object\<close> is set, else the total.\<close>

datatype rate_value = Full decimal receipt | Scalar decimal

text \<open>Lines 88-89: an absent or empty \<^verbatim>\<open>taxclass\<close> becomes the name \<^verbatim>\<open>"Default"\<close>.\<close>

definition default_taxclass :: "taxclass_arg \<Rightarrow> taxclass_arg" where
  "default_taxclass taxclass =
     (case taxclass of
        NoClass \<Rightarrow> ByName ''Default''
      | ByName n \<Rightarrow> if n = [] then ByName ''Default'' else ByName n
      | ByObject c \<Rightarrow> ByObject c)"

text \<open>
  Lines 99-103: a name is looked up by title, without regard to case, and
  \<^verbatim>\<open>TaxClass.DoesNotExist\<close> becomes \<^verbatim>\<open>ImproperlyConfigured\<close>. The argument is never
  absent here: line 89 has replaced it.
\<close>

definition lookup_taxclass :: "Database \<Rightarrow> taxclass_arg \<Rightarrow> error + TaxClass" where
  "lookup_taxclass db taxclass =
     (case taxclass of
        ByObject c \<Rightarrow> Inr c
      | ByName n \<Rightarrow>
          (case objects_get (\<lambda>c. iexact (title c) n) (tax_classes db) of
             Inr c \<Rightarrow> Inr c
           | Inl e \<Rightarrow> if e = DoesNotExist then Inl ImproperlyConfigured else Inl e)
      | NoClass \<Rightarrow> Inl TypeError)"

text \<open>Lines 105-111: the rates of the class for the area, then those for the country.\<close>

definition matching_rates :: "Database \<Rightarrow> TaxClass \<Rightarrow> AdminArea option \<Rightarrow> Country option \<Rightarrow> TaxRate list" where
  "matching_rates db tc area c =
     (case area of
        None \<Rightarrow> []
      | Some a \<Rightarrow>
          filter (\<lambda>r. taxClass r = class_id tc \<and> taxZone r = Some (area_id a)) (tax_rates db))
     @
     (case c of
        None \<Rightarrow> []
      | Some c' \<Rightarrow>
          filter (\<lambda>r. taxClass r = class_id tc \<and> taxCountry r = Some (country_id c'))
            (tax_rates db))"

text \<open>\<^verbatim>\<open>get_rate\<close> (lines 87-118).\<close>

definition get_rate :: "Database \<Rightarrow> Config \<Rightarrow> Processor \<Rightarrow> taxclass_arg \<Rightarrow> AdminArea option \<Rightarrow> Country option \<Rightarrow> bool \<Rightarrow> rate_value logged" where
  "get_rate db cfg self taxclass area c get_object =
     bind_logged
       (if area = None \<and> c = None then get_location db cfg self else ([], Inr (area, c)))
       (\<lambda>(area', c').
          bind_logged ([], lookup_taxclass db (default_taxclass taxclass))
            (\<lambda>tc.
               let rates = matching_rates db tc area' c'
               in ([(DEBUG, ''Got rates for taxclass: %s, area: %s, country: %s = [%s]'')],
                   Inr (if get_object
                        then Full (fst (tax_rate_list rates)) (snd (tax_rate_list rates))
                        else Scalar (fst (tax_rate_list rates))))))"

text \<open>\<^verbatim>\<open>full_rate, taxes = self.get_rate(..., get_object=True)\<close>: unpacking the pair.\<close>

definition unpack_rate :: "rate_value \<Rightarrow> (decimal \<times> receipt) logged" where
  "unpack_rate rv =
     (case rv of Full full_rate taxes \<Rightarrow> ([], Inr (full_rate, taxes))
               | Scalar _ \<Rightarrow> ([], Inl TypeError))"

section \<open>Shipping and the order: \<^verbatim>\<open>shipping\<close> and \<^verbatim>\<open>process\<close>\<close>

text \<open>
  The tax-detail dictionary is an association list with one entry per key;
  \<^const>\<open>map_of\<close> reads it and \<^const>\<open>AList.update\<close> stores into it. The loop of lines
  244-247 and 200-203: the key is created with 0 on first use, then the amount is added.
\<close>

fun accumulate_details :: "receipt \<Rightarrow> decimal \<Rightarrow> receipt \<Rightarrow> receipt" where
  "accumulate_details [] price tax_details = tax_details"
| "accumulate_details ((taxcode, rate) # taxes) price tax_details =
     accumulate_details taxes price
       (case map_of tax_details taxcode of
          None \<Rightarrow> AList.update taxcode (dec_add 0 (dec_mul rate price)) tax_details
        | Some v \<Rightarrow> AList.update taxcode (dec_add v (dec_mul rate price)) tax_details)"

text \<open>The message of line 192.\<close>

abbreviation shipping_class_missing :: string where
  "shipping_class_missing \<equiv> '''Shipping' TaxClass doesn't exist.''"

text \<open>
  Lines 184-192: the rate of the class named by \<^verbatim>\<open>TAX_CLASS\<close>, looked up by its exact
  title. \<^verbatim>\<open>ObjectDoesNotExist\<close> from the lookup or from \<^verbatim>\<open>get_rate\<close> is logged and
  leaves \<^verbatim>\<open>full_rate = None\<close> and \<^verbatim>\<open>taxes = []\<close>; any other exception goes on.
\<close>

definition shipping_rate :: "Database \<Rightarrow> Config \<Rightarrow> Processor \<Rightarrow> (decimal option \<times> receipt) logged" where
  "shipping_rate db cfg self =
     (if TAX_SHIPPING_CANADIAN cfg then
        (case bind_logged ([], objects_get (\<lambda>c. title c = TAX_CLASS cfg) (tax_classes db))
                (\<lambda>taxclass.
                   bind_logged (get_rate db cfg self (ByObject taxclass) None None True)
                     (\<lambda>rv. bind_logged (unpack_rate rv)
                        (\<lambda>(full_rate, taxes). ([], Inr (Some full_rate, taxes))))) of
           (l, Inl e) \<Rightarrow>
             if e = DoesNotExist
             then (l @ [(ERROR, shipping_class_missing)], Inr (None, []))
             else (l, Inl e)
         | (l, Inr r) \<Rightarrow> (l, Inr r))
      else ([], Inr (None, [])))"

text \<open>What \<^verbatim>\<open>shipping\<close> returns: the tax, with the details when they are asked for.\<close>

datatype shipping_value = ShipTax decimal | ShipTaxDetails decimal receipt

text \<open>\<^verbatim>\<open>shipping\<close> (lines 178-211).\<close>

definition shipping :: "Database \<Rightarrow> Config \<Rightarrow> Processor \<Rightarrow> decimal option \<Rightarrow> bool \<Rightarrow> shipping_value logged" where
  "shipping db cfg self subtotal with_details =
     (let subtotal' =
            (case subtotal of
               None \<Rightarrow> (case order self of None \<Rightarrow> None
                                         | Some ord \<Rightarrow> Some (shipping_sub_total ord))
             | Some s \<Rightarrow> Some s)
      in bind_logged
           (case subtotal' of
              None \<Rightarrow> ([], Inr (0, []))
            | Some s \<Rightarrow>
                if s \<noteq> 0 then
                  bind_logged (shipping_rate db cfg self)
                    (\<lambda>(full_rate, taxes).
                       let ship_tax =
                             (case full_rate of
                                None \<Rightarrow> 0
                              | Some fr \<Rightarrow> if fr \<noteq> 0 then dec_mul fr s else 0)
                       in ([], Inr (ship_tax,
                                    if with_details then accumulate_details taxes s [] else [])))
                else ([], Inr (0, [])))
           (\<lambda>(ship_tax, tax_details).
              ([], Inr (if with_details then ShipTaxDetails ship_tax tax_details
                        else ShipTax ship_tax))))"

text \<open>\<^verbatim>\<open>ship_taxes, ship_tax_details = self.shipping(with_details=True)\<close>.\<close>

definition unpack_shipping :: "shipping_value \<Rightarrow> (decimal \<times> receipt) logged" where
  "unpack_shipping sv =
     (case sv of ShipTaxDetails ship_taxes ship_tax_details \<Rightarrow>
                   ([], Inr (ship_taxes, ship_tax_details))
               | ShipTax _ \<Rightarrow> ([], Inl TypeError))"

text \<open>The argument that \<^verbatim>\<open>process\<close> gives to \<^verbatim>\<open>get_rate\<close>: the product's class or \<^verbatim>\<open>None\<close>.\<close>

definition item_taxclass :: "OrderItem \<Rightarrow> taxclass_arg" where
  "item_taxclass item =
     (case product_taxClass (product item) of None \<Rightarrow> NoClass | Some tc \<Rightarrow> ByObject tc)"

text \<open>The loop over the taxable items (lines 227-247).\<close>

fun process_items :: "Database \<Rightarrow> Config \<Rightarrow> Processor \<Rightarrow> OrderItem list \<Rightarrow> decimal \<times> receipt \<Rightarrow> (decimal \<times> receipt) logged" where
  "process_items db cfg self [] (acc, tax_details) = ([], Inr (acc, tax_details))"
| "process_items db cfg self (item # items) (acc, tax_details) =
     bind_logged (get_rate db cfg self (item_taxclass item) None None True)
       (\<lambda>rv. bind_logged (unpack_rate rv)
          (\<lambda>(full_rate, taxes).
             let price = sub_total item
             in process_items db cfg self items
                  (dec_add acc (dec_mul price full_rate),
                   accumulate_details taxes price tax_details)))"

text \<open>
  Lines 254-255: every shipping code gets the key \<^verbatim>\<open>'Shipping ' + taxcode\<close>, and the
  value read is \<^verbatim>\<open>ship_tax_details['taxCode']\<close>, the entry of the literal key.
\<close>

fun separate_details :: "string list \<Rightarrow> receipt \<Rightarrow> receipt \<Rightarrow> error + receipt" where
  "separate_details [] ship_tax_details tax_details = Inr tax_details"
| "separate_details (taxcode # taxcodes) ship_tax_details tax_details =
     (case map_of ship_tax_details ''taxCode'' of
        None \<Rightarrow> Inl KeyError
      | Some v \<Rightarrow>
          separate_details taxcodes ship_tax_details
            (AList.update (''Shipping '' @ taxcode) v tax_details))"

text \<open>Lines 258-260: the shipping amount of a code is added to the code's entry.\<close>

fun combine_details :: "string list \<Rightarrow> receipt \<Rightarrow> receipt \<Rightarrow> error + receipt" where
  "combine_details [] ship_tax_details tax_details = Inr tax_details"
| "combine_details (taxcode # taxcodes) ship_tax_details tax_details =
     (case map_of ship_tax_details taxcode of
        None \<Rightarrow> Inl KeyError
      | Some v \<Rightarrow>
          combine_details taxcodes ship_tax_details
            (AList.update taxcode
               (dec_add (case map_of tax_details taxcode of None \<Rightarrow> 0 | Some d \<Rightarrow> d) v)
               tax_details))"

text \<open>
  \<^verbatim>\<open>process\<close> (lines 213-262). The order given replaces \<^verbatim>\<open>self.order\<close>, and the
  processor so updated is the one that \<^verbatim>\<open>get_rate\<close> and \<^verbatim>\<open>shipping\<close> see. With neither
  an argument nor \<^verbatim>\<open>self.order\<close>, \<^verbatim>\<open>order.orderitem_set\<close> raises \<^verbatim>\<open>AttributeError\<close>.
\<close>

definition process :: "Database \<Rightarrow> Config \<Rightarrow> Processor \<Rightarrow> Order option \<Rightarrow> (decimal \<times> receipt) logged" where
  "process db cfg self order_arg =
     (let self' = (case order_arg of None \<Rightarrow> self | Some ord \<Rightarrow> self\<lparr>order := Some ord\<rparr>)
      in case order self' of
           None \<Rightarrow> ([], Inl AttributeError)
         | Some ord \<Rightarrow>
             bind_logged
               (process_items db cfg self'
                  (filter (\<lambda>item. taxable (product item)) (orderitem_set ord)) (0, []))
               (\<lambda>(acc, tax_details).
                  bind_logged (shipping db cfg self' None True)
                    (\<lambda>sv. bind_logged (unpack_shipping sv)
                       (\<lambda>(ship_taxes, ship_tax_details).
                          bind_logged
                            ([], if TAX_SHIPPING_DETAILS_SEPARATE cfg
                                 then separate_details (map fst ship_tax_details)
                                        ship_tax_details tax_details
                                 else combine_details (map fst ship_tax_details)
                                        ship_tax_details tax_details)
                            (\<lambda>tax_details'. ([], Inr (dec_add acc ship_taxes, tax_details')))))))"

section \<open>Reading the tax details\<close>

text \<open>
  The notions in which the properties of \<^verbatim>\<open>process\<close> are stated. The amount that a
  detail dictionary holds for a code, 0 for a key it does not have.
\<close>

definition amount :: "receipt \<Rightarrow> string \<Rightarrow> decimal" where
  "amount tax_details code = (case map_of tax_details code of None \<Rightarrow> 0 | Some v \<Rightarrow> v)"

text \<open>What a breakdown contributes to a code at a price: rate times price, summed over
  the entries of the code.\<close>

definition contribution :: "receipt \<Rightarrow> decimal \<Rightarrow> string \<Rightarrow> decimal" where
  "contribution taxes price code =
     sum_list (map (\<lambda>(taxcode, rate). rate * price)
                 (filter (\<lambda>(taxcode, rate). taxcode = code) taxes))"

text \<open>The breakdown that \<^verbatim>\<open>get_rate\<close> returns for the class of an order item.\<close>

definition item_taxes :: "Database \<Rightarrow> Config \<Rightarrow> Processor \<Rightarrow> OrderItem \<Rightarrow> receipt" where
  "item_taxes db cfg self item =
     (case snd (get_rate db cfg self (item_taxclass item) None None True) of
        Inr (Full full_rate taxes) \<Rightarrow> taxes
      | _ \<Rightarrow> [])"

text \<open>The merchandise contribution to a code: over the items, rate times item subtotal.\<close>

definition merchandise_contribution :: "Database \<Rightarrow> Config \<Rightarrow> Processor \<Rightarrow> OrderItem list \<Rightarrow> string \<Rightarrow> decimal" where
  "merchandise_contribution db cfg self items code =
     sum_list (map (\<lambda>item. contribution (item_taxes db cfg self item) (sub_total item) code)
                 items)"

text \<open>The breakdown of the shipping class, empty when the shipping subtotal is zero.\<close>

definition shipping_taxes :: "Database \<Rightarrow> Config \<Rightarrow> Processor \<Rightarrow> Order \<Rightarrow> receipt" where
  "shipping_taxes db cfg self ord =
     (if shipping_sub_total ord \<noteq> 0
      then (case snd (shipping_rate db cfg self) of
              Inr (full_rate, taxes) \<Rightarrow> taxes
            | Inl _ \<Rightarrow> [])
      else [])"

text \<open>
  The amount that the loop of lines 244-247 accumulates for a code from a breakdown,
  in Decimal arithmetic and from a starting amount: every entry of the code adds its
  rounded product \<open>rate * price\<close>, in a rounded addition.
\<close>

definition accumulated :: "receipt \<Rightarrow> decimal \<Rightarrow> string \<Rightarrow> decimal \<Rightarrow> decimal" where
  "accumulated taxes price code start =
     foldl (\<lambda>a (taxcode, rate). if taxcode = code then dec_add a (dec_mul rate price) else a)
       start taxes"

text \<open>The merchandise amount of a code: accumulated over the items, in their order.\<close>

definition merchandise_amount :: "Database \<Rightarrow> Config \<Rightarrow> Processor \<Rightarrow> OrderItem list \<Rightarrow> string \<Rightarrow> decimal" where
  "merchandise_amount db cfg self items code =
     foldl (\<lambda>a item. accumulated (item_taxes db cfg self item) (sub_total item) code a)
       0 items"

section \<open>Example data\<close>

text \<open>
  A small store, used where a theorem is applied to a concrete input: Canada with one
  province, the tax classes \<^verbatim>\<open>Default\<close> and \<^verbatim>\<open>Shipping\<close>, a 5\% federal rate and compound
  provincial rates.
\<close>

abbreviation ex_rate :: "string \<Rightarrow> decimal \<Rightarrow> bool \<Rightarrow> int \<Rightarrow> bool \<Rightarrow> nat \<Rightarrow> TaxRate" where
  "ex_rate code pct cmp ord ovr cls \<equiv>
     \<lparr>taxCode = code, percentage = pct, compound = cmp, compound_order = ord,
      override = ovr, taxClass = cls, taxZone = None, taxCountry = Some 1\<rparr>"

abbreviation ex_gst :: TaxRate where "ex_gst \<equiv> ex_rate ''GST'' (5 / 100) False 0 False 1"

abbreviation ex_pst :: TaxRate where "ex_pst \<equiv> ex_rate ''PST'' (7 / 100) True 1 False 1"

abbreviation ex_qst :: TaxRate where "ex_qst \<equiv> ex_rate ''QST'' (1 / 10) True 2 False 1"

abbreviation ex_tie :: TaxRate where "ex_tie \<equiv> ex_rate ''TIE'' (1 / 10) True 1 False 1"

abbreviation ex_hst :: TaxRate where "ex_hst \<equiv> ex_rate ''HST'' (13 / 100) False 0 True 1"

abbreviation ex_xst :: TaxRate where "ex_xst \<equiv> ex_rate ''XST'' (1 / 2) True 3 True 1"

abbreviation ex_canada :: Country where
  "ex_canada \<equiv> \<lparr>country_id = 1, iso2_code = ''CA''\<rparr>"

abbreviation ex_default :: TaxClass where
  "ex_default \<equiv> \<lparr>class_id = 1, title = ''Default''\<rparr>"

abbreviation ex_shipping :: TaxClass where
  "ex_shipping \<equiv> \<lparr>class_id = 2, title = ''Shipping''\<rparr>"

text \<open>The class \<^verbatim>\<open>Default\<close> has GST and the compound PST, the class \<^verbatim>\<open>Shipping\<close> has GST.\<close>

abbreviation ex_db :: Database where
  "ex_db \<equiv> \<lparr>countries = [ex_canada], admin_areas = [],
     tax_classes = [ex_default, ex_shipping],
     tax_rates = [ex_gst, ex_pst, ex_rate ''GST'' (5 / 100) False 0 False 2],
     contacts = [], sales_country = Some ex_canada\<rparr>"

text \<open>The same store with a second class titled \<^verbatim>\<open>Shipping\<close>.\<close>

abbreviation ex_db_twice :: Database where
  "ex_db_twice \<equiv>
     ex_db\<lparr>tax_classes := [ex_default, ex_shipping, \<lparr>class_id = 3, title = ''Shipping''\<rparr>]\<rparr>"

abbreviation ex_cfg :: "bool \<Rightarrow> Config" where
  "ex_cfg sep \<equiv> \<lparr>TAX_AREA_ADDRESS = ''ship'', TAX_SHIPPING_CANADIAN = True,
     TAX_CLASS = ''Shipping'', TAX_SHIPPING_DETAILS_SEPARATE = sep\<rparr>"

text \<open>An order to Canada: two taxable items of 100 and 20, one untaxed item, shipping 10.\<close>

abbreviation ex_order :: Order where
  "ex_order \<equiv> \<lparr>ship_country = ''CA'', ship_state = '''', bill_country = ''CA'', bill_state = '''',
     shipping_sub_total = 10,
     orderitem_set =
       [\<lparr>product = \<lparr>taxable = True, product_taxClass = None\<rparr>, sub_total = 100\<rparr>,
        \<lparr>product = \<lparr>taxable = False, product_taxClass = None\<rparr>, sub_total = 1000\<rparr>,
        \<lparr>product = \<lparr>taxable = True, product_taxClass = Some ex_default\<rparr>, sub_total = 20\<rparr>]\<rparr>"

abbreviation ex_self :: Processor where
  "ex_self \<equiv> \<lparr>order = None, user = None\<rparr>"

text \<open>Rates with sixteen decimals, whose products need more than 28 digits.\<close>

abbreviation ex_fine_gst :: TaxRate where
  "ex_fine_gst \<equiv> ex_rate ''GST'' (1234567890123456 / 10000000000000000) False 0 False 1"

abbreviation ex_fine_pst :: TaxRate where
  "ex_fine_pst \<equiv> ex_rate ''PST'' (712345678901234 / 10000000000000000) True 1 False 1"

abbreviation ex_fine_qst :: TaxRate where
  "ex_fine_qst \<equiv> ex_rate ''QST'' (998765432109876 / 10000000000000000) True 2 False 1"

text \<open>One regular rate and four compound rates with six decimals.\<close>

abbreviation ex_six :: "TaxRate list" where
  "ex_six \<equiv>
     [ex_rate ''GST'' (55589 / 1000000) False 0 False 1,
      ex_rate ''PST'' (102559 / 1000000) True 1 False 1,
      ex_rate ''QST'' (100472 / 1000000) True 2 False 1,
      ex_rate ''RST'' (44402 / 1000000) True 3 False 1,
      ex_rate ''SST'' (32336 / 1000000) True 4 False 1]"

text \<open>Five compound rates with six decimals, all of \<open>compound_order\<close> 1.\<close>

abbreviation tie_a :: TaxRate where "tie_a \<equiv> ex_rate ''A'' (26682 / 1000000) True 1 False 1"

abbreviation tie_b :: TaxRate where "tie_b \<equiv> ex_rate ''B'' (681099 / 1000000) True 1 False 1"

abbreviation tie_c :: TaxRate where "tie_c \<equiv> ex_rate ''C'' (567713 / 1000000) True 1 False 1"

abbreviation tie_d :: TaxRate where "tie_d \<equiv> ex_rate ''D'' (9653 / 1000000) True 1 False 1"

abbreviation tie_e :: TaxRate where "tie_e \<equiv> ex_rate ''E'' (984770 / 1000000) True 1 False 1"

text \<open>
  The store with the five rates of \<open>ex_six\<close> for the class \<^verbatim>\<open>Default\<close>, and an order of one item
  of 19.99 without shipping.
\<close>

abbreviation ex_db_fine :: Database where
  "ex_db_fine \<equiv> ex_db\<lparr>tax_rates := ex_six\<rparr>"

abbreviation ex_order_fine :: Order where
  "ex_order_fine \<equiv> \<lparr>ship_country = ''CA'', ship_state = '''', bill_country = ''CA'', bill_state = '''',
     shipping_sub_total = 0,
     orderitem_set =
       [\<lparr>product = \<lparr>taxable = True, product_taxClass = Some ex_default\<rparr>,
         sub_total = 1999 / 100\<rparr>]\<rparr>"

section \<open>Evaluating the model on concrete inputs\<close>

text \<open>Floor and ceiling of a quotient of numerals, by integer division.\<close>

lemma floor_rat_numeral:
  "\<lfloor>numeral a / numeral b :: rat\<rfloor> = numeral a div numeral b"
  by (metis floor_divide_of_int_eq of_int_numeral)

lemma floor_rat_neg_numeral:
  "\<lfloor>- (numeral a / numeral b) :: rat\<rfloor> = - numeral a div numeral b"
  by (metis divide_minus_left floor_divide_of_int_eq of_int_neg_numeral of_int_numeral)

lemma ceiling_rat_numeral:
  "\<lceil>numeral a / numeral b :: rat\<rceil> = - (- numeral a div numeral b)"
  unfolding ceiling_def floor_rat_neg_numeral ..

text \<open>The equations that compute a Decimal operation on numerals.\<close>

lemmas dec_eval = dec_add_def dec_mul_def dec_round_def pow10_def round_half_even_def
  adjusted_def context_prec_def compute_floorlog Let_def
  floor_rat_numeral floor_rat_neg_numeral ceiling_rat_numeral

text \<open>
  A computation is evaluated before what follows it: with this rule the simplifier
  does not enter the continuation while its argument is unknown.
\<close>

lemma bind_logged_weak_cong: "m = m' \<Longrightarrow> bind_logged m f = bind_logged m' f"
  by simp

lemmas program_eval = process_def bind_logged_def get_rate_def get_location_def
  location_of_order_def location_of_user_def objects_get_def resolve_area_def in_country_def
  default_taxclass_def lookup_taxclass_def iexact_def lower_char_def matching_rates_def
  tax_rate_list_def item_taxclass_def unpack_rate_def shipping_def shipping_rate_def
  unpack_shipping_def

section \<open>Properties of the rate reducer\<close>

lemma add_regular_eq:
  "add_regular rs (t, rd) =
     (foldl dec_add t (map percentage rs), rd @ map (\<lambda>r. (taxCode r, percentage r)) rs)"
  by (induction rs arbitrary: t rd) simp_all

lemma add_compound_eq:
  "add_compound rs (t, rd) =
     (foldl dec_add t (map snd (compound_entries rs t)), rd @ compound_entries rs t)"
  by (induction rs arbitrary: t rd) (simp_all add: Let_def)

lemma compound_entries_codes: "map fst (compound_entries rs t) = map taxCode rs"
  by (induction rs arbitrary: t) (simp_all add: Let_def)

lemma tax_rate_list_no_override:
  "filter override rates = [] \<Longrightarrow>
     tax_rate_list rates =
       add_compound (sort_key compound_order (filter compound rates))
         (add_regular (filter (\<lambda>r. \<not> compound r) rates) (0, []))"
  by (cases rates) (simp_all add: tax_rate_list_def)

lemma no_override_filter: "(\<forall>r\<in>set rates. \<not> override r) \<Longrightarrow> filter override rates = []"
  by (simp add: filter_empty_conv)

text \<open>
  Without override records: the regular entries in input order, then the entries of the
  compound records in sorted order, computed from the regular total; the total is the
  regular total with the compound entries added one by one.
\<close>

lemma tax_rate_list_entries:
  assumes "filter override rates = []"
  shows "tax_rate_list rates =
     (foldl dec_add (foldl dec_add 0 (map percentage (filter (\<lambda>r. \<not> compound r) rates)))
        (map snd (compound_entries (sort_key compound_order (filter compound rates))
           (foldl dec_add 0 (map percentage (filter (\<lambda>r. \<not> compound r) rates))))),
      map (\<lambda>r. (taxCode r, percentage r)) (filter (\<lambda>r. \<not> compound r) rates) @
      compound_entries (sort_key compound_order (filter compound rates))
        (foldl dec_add 0 (map percentage (filter (\<lambda>r. \<not> compound r) rates))))"
  by (simp add: tax_rate_list_no_override[OF assms] add_regular_eq add_compound_eq)

text \<open>Additions that need no rounding give the exact sum.\<close>

lemma foldl_dec_add_exact:
  "(\<forall>i\<le>length xs. dec_round (sum_list (take i xs)) = sum_list (take i xs)) \<Longrightarrow>
     foldl dec_add 0 xs = sum_list xs"
proof (induction xs rule: rev_induct)
  case Nil
  then show ?case by simp
next
  case (snoc x xs)
  have "\<forall>i\<le>length xs. dec_round (sum_list (take i xs)) = sum_list (take i xs)"
  proof (intro allI impI)
    fix i assume i: "i \<le> length xs"
    then have "i \<le> length (xs @ [x])" by simp
    with snoc.prems have "dec_round (sum_list (take i (xs @ [x]))) = sum_list (take i (xs @ [x]))"
      by blast
    with i show "dec_round (sum_list (take i xs)) = sum_list (take i xs)" by simp
  qed
  then have ih: "foldl dec_add 0 xs = sum_list xs" by (rule snoc.IH)
  have "dec_round (sum_list (take (length (xs @ [x])) (xs @ [x]))) =
        sum_list (take (length (xs @ [x])) (xs @ [x]))"
    using snoc.prems by blast
  then have ex: "dec_round (sum_list xs + x) = sum_list xs + x" by simp
  have "foldl dec_add 0 (xs @ [x]) = dec_add (sum_list xs) x" using ih by simp
  also have "\<dots> = dec_round (sum_list xs + x)" by (simp only: dec_add_def)
  also have "\<dots> = sum_list xs + x" by (rule ex)
  finally show ?case by simp
qed

text \<open>Among records with pairwise different keys, a key selects its own record.\<close>

lemma filter_key_distinct:
  "distinct (map f xs) \<Longrightarrow> k \<in> set xs \<Longrightarrow> filter (\<lambda>x. f k = f x) xs = [k]"
proof (induction xs)
  case Nil
  then show ?case by simp
next
  case (Cons a xs)
  show ?case
  proof (cases "a = k")
    case True
    with Cons.prems have "\<forall>x\<in>set xs. f k \<noteq> f x" by auto
    then have "filter (\<lambda>x. f k = f x) xs = []" by (simp add: filter_empty_conv)
    with True show ?thesis by simp
  next
    case False
    with Cons.prems have "k \<in> set xs" "f k \<noteq> f a" by (auto simp: image_iff)
    with Cons show ?thesis by simp
  qed
qed

text \<open>Sorting forgets the input order when no two keys are equal.\<close>

lemma sort_key_perm_distinct:
  assumes "mset xs = mset ys" and "distinct (map f xs)"
  shows "sort_key f ys = sort_key f xs"
proof (rule properties_for_sort_key)
  show "mset (sort_key f xs) = mset ys" using assms by simp
  show "sorted (map f (sort_key f xs))" by simp
  fix k assume "k \<in> set (sort_key f xs)"
  then have kx: "k \<in> set xs" by simp
  then have ky: "k \<in> set ys" using assms(1) by (metis mset_eq_setD)
  have "mset (map f xs) = mset (map f ys)" using assms(1) by (metis mset_map)
  then have dy: "distinct (map f ys)" using assms(2) by (metis mset_eq_imp_distinct_iff)
  have "filter (\<lambda>x. f k = f x) (sort_key f xs) = filter (\<lambda>x. f x = f k) (sort_key f xs)"
    by (rule filter_cong) auto
  also have "\<dots> = filter (\<lambda>x. f x = f k) xs" by (rule sort_key_stable)
  also have "\<dots> = filter (\<lambda>x. f k = f x) xs" by (rule filter_cong) auto
  also have "\<dots> = [k]" using assms(2) kx by (rule filter_key_distinct)
  also have "\<dots> = filter (\<lambda>x. f k = f x) ys"
    using dy ky by (rule filter_key_distinct[symmetric])
  finally show "filter (\<lambda>x. f k = f x) (sort_key f xs) = filter (\<lambda>x. f k = f x) ys" .
qed

text \<open>With pairwise different keys there is one ascending arrangement: the sorted one.\<close>

lemma sorted_arrangement_unique:
  assumes "mset cs = mset xs" and "sorted (map f cs)" and "distinct (map f xs)"
  shows "sort_key f xs = cs"
proof -
  have "sort_key f cs = sort_key f xs"
    using assms(1)[symmetric] assms(3) by (rule sort_key_perm_distinct)
  moreover have "sort_key f cs = cs" using assms(2) by (rule sort_key_id_if_sorted)
  ultimately show ?thesis by simp
qed

text \<open>
  C5, the claim as it stands: it says that the percentages of the breakdown sum exactly
  to the returned total, for every rate list. With the regular rate 0.055589 and the
  compound rates 0.102559, 0.100472, 0.044402 and 0.032336 (orders 1 to 4) the last
  addition is rounded to 28 digits: the total is 0.3809070882840492395101408740 and the
  breakdown sums to 0.38090708828404923951014087398.
\<close>

theorem breakdown_sum_counterexample:
  "fst (tax_rate_list ex_six) = 3809070882840492395101408740 / 10000000000000000000000000000 \<and>
   sum_list (map snd (snd (tax_rate_list ex_six))) = 38090708828404923951014087398 / 100000000000000000000000000000 \<and>
   sum_list (map snd (snd (tax_rate_list ex_six))) \<noteq> fst (tax_rate_list ex_six)"
  by (simp add: tax_rate_list_def dec_eval cong: let_weak_cong)

text \<open>
  C5, amended: the returned total is the percentages of the breakdown added one by one
  in the order of the breakdown, every addition rounded to the context (when an override
  record decides the result, the total is the one percentage of the breakdown). It is
  their exact sum whenever no partial sum of the breakdown needs rounding.
\<close>

theorem breakdown_accumulates_to_total:
  "fst (tax_rate_list rates) =
     (if filter override rates = []
      then foldl dec_add 0 (map snd (snd (tax_rate_list rates)))
      else sum_list (map snd (snd (tax_rate_list rates)))) \<and>
   ((\<forall>i\<le>length (map snd (snd (tax_rate_list rates))).
        dec_round (sum_list (take i (map snd (snd (tax_rate_list rates))))) =
        sum_list (take i (map snd (snd (tax_rate_list rates))))) \<longrightarrow>
    fst (tax_rate_list rates) = sum_list (map snd (snd (tax_rate_list rates))))"
proof (cases "filter override rates")
  case (Cons r rs)
  then have "rates \<noteq> []" by auto
  with Cons show ?thesis by (simp add: tax_rate_list_def)
next
  case Nil
  have acc: "fst (tax_rate_list rates) = foldl dec_add 0 (map snd (snd (tax_rate_list rates)))"
    by (simp add: tax_rate_list_entries[OF Nil] comp_def)
  show ?thesis
  proof (intro conjI impI)
    show "fst (tax_rate_list rates) =
       (if filter override rates = []
        then foldl dec_add 0 (map snd (snd (tax_rate_list rates)))
        else sum_list (map snd (snd (tax_rate_list rates))))"
      using Nil acc by simp
    assume "\<forall>i\<le>length (map snd (snd (tax_rate_list rates))).
        dec_round (sum_list (take i (map snd (snd (tax_rate_list rates))))) =
        sum_list (take i (map snd (snd (tax_rate_list rates))))"
    then have "foldl dec_add 0 (map snd (snd (tax_rate_list rates))) =
        sum_list (map snd (snd (tax_rate_list rates)))"
      by (rule foldl_dec_add_exact)
    with acc show "fst (tax_rate_list rates) = sum_list (map snd (snd (tax_rate_list rates)))"
      by simp
  qed
qed

theorem breakdown_accumulates_to_total_witness:
  "fst (tax_rate_list [ex_pst, ex_gst]) = 1235 / 10000 \<and>
   sum_list (map snd (snd (tax_rate_list [ex_pst, ex_gst]))) = 1235 / 10000"
proof -
  have bd: "map snd (snd (tax_rate_list [ex_pst, ex_gst])) = [5 / 100, 735 / 10000]"
    by (simp add: tax_rate_list_def dec_eval cong: let_weak_cong)
  have e0: "dec_round (sum_list (take 0 [5 / 100, 735 / 10000])) =
            sum_list (take 0 [5 / 100, 735 / 10000 :: rat])"
    by (simp add: dec_eval)
  have e1: "dec_round (sum_list (take 1 [5 / 100, 735 / 10000])) =
            sum_list (take 1 [5 / 100, 735 / 10000 :: rat])"
    by (simp add: dec_eval)
  have e2: "dec_round (sum_list (take 2 [5 / 100, 735 / 10000])) =
            sum_list (take 2 [5 / 100, 735 / 10000 :: rat])"
    by (simp add: dec_eval)
  have "\<forall>i\<le>length [5 / 100, 735 / 10000 :: rat].
      dec_round (sum_list (take i [5 / 100, 735 / 10000])) =
      sum_list (take i [5 / 100, 735 / 10000])"
  proof (intro allI impI)
    fix i :: nat
    assume "i \<le> length [5 / 100, 735 / 10000 :: rat]"
    then have "i = 0 \<or> i = 1 \<or> i = 2" by (simp; arith)
    with e0 e1 e2 show "dec_round (sum_list (take i [5 / 100, 735 / 10000])) =
      sum_list (take i [5 / 100, 735 / 10000])"
      by blast
  qed
  with bd have "\<forall>i\<le>length (map snd (snd (tax_rate_list [ex_pst, ex_gst]))).
        dec_round (sum_list (take i (map snd (snd (tax_rate_list [ex_pst, ex_gst]))))) =
        sum_list (take i (map snd (snd (tax_rate_list [ex_pst, ex_gst]))))"
    by (simp only:)
  with breakdown_accumulates_to_total [of "[ex_pst, ex_gst]"]
  have "fst (tax_rate_list [ex_pst, ex_gst]) =
        sum_list (map snd (snd (tax_rate_list [ex_pst, ex_gst])))"
    by blast
  with bd show ?thesis by simp
qed

text \<open>
  C2: when a rate list holds an override record, the first one in input order decides
  the result: its percentage is the total and the breakdown is its entry alone,
  whatever the records before and after it.
\<close>

theorem override_first_wins:
  assumes "rates = pre @ r # post" and "\<forall>x\<in>set pre. \<not> override x" and "override r"
  shows "tax_rate_list rates = (percentage r, [(taxCode r, percentage r)])"
proof -
  have "filter override rates = r # filter override post"
    using assms by (simp add: filter_empty_conv)
  then show ?thesis using assms(1) by (simp add: tax_rate_list_def)
qed

theorem override_first_wins_witness:
  "tax_rate_list [ex_gst, ex_hst, ex_pst, ex_xst] = (13 / 100, [(''HST'', 13 / 100)])"
  using override_first_wins [of "[ex_gst, ex_hst, ex_pst, ex_xst]" "[ex_gst]" ex_hst "[ex_pst, ex_xst]"]
  by simp

text \<open>
  C3, the claim as it stands: it says that the compound entry is \<open>C + C * B\<close> and the
  total \<open>B + C + C * B\<close>, in exact arithmetic without internal rounding. With the
  regular rate \<open>B = 0.1234567890123456\<close> and the compound rate
  \<open>C = 0.0712345678901234\<close> the product \<open>C * B\<close> has 30 significant digits: the entry is
  0.08002895890851997325910690745 and the total 0.2034857479208655732591069074, both
  rounded.
\<close>

theorem single_compound_counterexample:
  "tax_rate_list [ex_fine_pst, ex_fine_gst] =
     (2034857479208655732591069074 / 10000000000000000000000000000,
      [(''GST'', 1234567890123456 / 10000000000000000),
       (''PST'', 8002895890851997325910690745 / 100000000000000000000000000000)]) \<and>
   8002895890851997325910690745 / 100000000000000000000000000000 \<noteq>
     (712345678901234 / 10000000000000000 +
      712345678901234 / 10000000000000000 * (1234567890123456 / 10000000000000000) :: rat) \<and>
   2034857479208655732591069074 / 10000000000000000000000000000 \<noteq>
     (1234567890123456 / 10000000000000000 + 712345678901234 / 10000000000000000 +
      712345678901234 / 10000000000000000 * (1234567890123456 / 10000000000000000) :: rat)"
  by (simp add: tax_rate_list_def dec_eval cong: let_weak_cong)

text \<open>
  C3, amended: without override records, with the regular percentages added in input
  order to \<open>B\<close> and the one compound record \<open>c\<close> of percentage \<open>C\<close>, the compound entry
  comes last with the percentage \<open>C + C * B\<close> and the total is \<open>B + (C + C * B)\<close>, where
  every sum and product is the one of the context, rounded to 28 significant digits.
  When \<open>B\<close> is the exact sum of the regular percentages and neither the product nor the
  two sums need rounding, these are the exact \<open>C + C * B\<close> and \<open>B + C + C * B\<close>.
\<close>

theorem single_compound:
  assumes "\<forall>r\<in>set rates. \<not> override r"
    and "filter compound rates = [c]"
    and "B = foldl dec_add 0 (map percentage (filter (\<lambda>r. \<not> compound r) rates))"
    and "C = percentage c"
  shows "tax_rate_list rates =
           (dec_add B (dec_add C (dec_mul C B)),
            map (\<lambda>r. (taxCode r, percentage r)) (filter (\<lambda>r. \<not> compound r) rates) @
              [(taxCode c, dec_add C (dec_mul C B))]) \<and>
         (B = sum_list (map percentage (filter (\<lambda>r. \<not> compound r) rates)) \<and>
          dec_round (C * B) = C * B \<and>
          dec_round (C + C * B) = C + C * B \<and>
          dec_round (B + (C + C * B)) = B + (C + C * B) \<longrightarrow>
          tax_rate_list rates =
           (B + C + C * B,
            map (\<lambda>r. (taxCode r, percentage r)) (filter (\<lambda>r. \<not> compound r) rates) @
              [(taxCode c, C + C * B)]))"
proof -
  have no: "filter override rates = []" using assms(1) by (rule no_override_filter)
  have r: "tax_rate_list rates =
           (dec_add B (dec_add C (dec_mul C B)),
            map (\<lambda>r. (taxCode r, percentage r)) (filter (\<lambda>r. \<not> compound r) rates) @
              [(taxCode c, dec_add C (dec_mul C B))])"
    using assms(2-4) by (simp add: tax_rate_list_entries[OF no] Let_def)
  show ?thesis
  proof (intro conjI impI)
    show "tax_rate_list rates =
           (dec_add B (dec_add C (dec_mul C B)),
            map (\<lambda>r. (taxCode r, percentage r)) (filter (\<lambda>r. \<not> compound r) rates) @
              [(taxCode c, dec_add C (dec_mul C B))])"
      by (rule r)
    assume h: "B = sum_list (map percentage (filter (\<lambda>r. \<not> compound r) rates)) \<and>
          dec_round (C * B) = C * B \<and>
          dec_round (C + C * B) = C + C * B \<and>
          dec_round (B + (C + C * B)) = B + (C + C * B)"
    from h have h2: "dec_round (C * B) = C * B" by blast
    from h have h3: "dec_round (C + C * B) = C + C * B" by blast
    from h have h4: "dec_round (B + (C + C * B)) = B + (C + C * B)" by blast
    have m: "dec_mul C B = C * B" by (simp only: dec_mul_def h2)
    have e: "dec_add C (C * B) = C + C * B" by (simp only: dec_add_def h3)
    have t: "dec_add B (C + C * B) = B + (C + C * B)" by (simp only: dec_add_def h4)
    show "tax_rate_list rates =
           (B + C + C * B,
            map (\<lambda>r. (taxCode r, percentage r)) (filter (\<lambda>r. \<not> compound r) rates) @
              [(taxCode c, C + C * B)])"
      by (simp only: r m e t add.assoc)
  qed
qed

theorem single_compound_witness:
  "tax_rate_list [ex_pst, ex_gst] = (1235 / 10000, [(''GST'', 5 / 100), (''PST'', 735 / 10000)])"
proof -
  have a1: "\<forall>r\<in>set [ex_pst, ex_gst]. \<not> override r" by simp
  have a2: "filter compound [ex_pst, ex_gst] = [ex_pst]" by simp
  have a3: "5 / 100 = foldl dec_add 0 (map percentage (filter (\<lambda>r. \<not> compound r) [ex_pst, ex_gst]))"
    by (simp add: dec_eval)
  have a4: "7 / 100 = percentage ex_pst" by simp
  have e: "5 / 100 = sum_list (map percentage (filter (\<lambda>r. \<not> compound r) [ex_pst, ex_gst])) \<and>
      dec_round (7 / 100 * (5 / 100)) = 7 / 100 * (5 / 100) \<and>
      dec_round (7 / 100 + 7 / 100 * (5 / 100)) = 7 / 100 + 7 / 100 * (5 / 100) \<and>
      dec_round (5 / 100 + (7 / 100 + 7 / 100 * (5 / 100))) =
        5 / 100 + (7 / 100 + 7 / 100 * (5 / 100))"
    by (simp add: dec_eval)
  from single_compound [OF a1 a2 a3 a4] e
  have "tax_rate_list [ex_pst, ex_gst] =
           (5 / 100 + 7 / 100 + 7 / 100 * (5 / 100),
            map (\<lambda>r. (taxCode r, percentage r)) (filter (\<lambda>r. \<not> compound r) [ex_pst, ex_gst]) @
              [(taxCode ex_pst, 7 / 100 + 7 / 100 * (5 / 100))])"
    by blast
  then show ?thesis by simp
qed

text \<open>
  C4, the claim as it stands: it gives the total of two compound rates over the base
  \<open>B\<close> as the exact \<open>B + (C1 + C1 * B) + (C2 + C2 * (B + C1 + C1 * B))\<close>. With the regular
  rate \<open>B = 0.1234567890123456\<close> and the compound rates \<open>C1 = 0.0712345678901234\<close> (order
  1) and \<open>C2 = 0.0998765432109876\<close> (order 2) the products are rounded to 28 digits, and
  the total 0.3236857442268916338719681658 is not that number.
\<close>

theorem two_compound_total_counterexample:
  "tax_rate_list [ex_fine_qst, ex_fine_gst, ex_fine_pst] =
     (3236857442268916338719681658 / 10000000000000000000000000000,
      [(''GST'', 1234567890123456 / 10000000000000000),
       (''PST'', 8002895890851997325910690745 / 100000000000000000000000000000),
       (''QST'', 1201999963060260606128612584 / 10000000000000000000000000000)]) \<and>
   3236857442268916338719681658 / 10000000000000000000000000000 \<noteq>
     (1234567890123456 / 10000000000000000 + (712345678901234 / 10000000000000000 + 712345678901234 / 10000000000000000 * (1234567890123456 / 10000000000000000)) +
      (998765432109876 / 10000000000000000 + 998765432109876 / 10000000000000000 * (1234567890123456 / 10000000000000000 + 712345678901234 / 10000000000000000 + 712345678901234 / 10000000000000000 * (1234567890123456 / 10000000000000000))) :: rat)"
  by (simp add: tax_rate_list_def dec_eval cong: let_weak_cong)

text \<open>
  C4, amended: without override records and with pairwise different \<open>compound_order\<close>
  values, the result does not change when the compound records are permuted in the input
  (the regular records keeping their order): the compound records are processed ascending
  by \<open>compound_order\<close>, each compounding on the running total, whatever ascending
  arrangement \<open>cs\<close> of them is taken. With two compound records \<open>c1\<close> before \<open>c2\<close> in
  \<open>compound_order\<close> over the regular percentages added to \<open>B\<close>, the entries are
  \<open>r1 = C1 + C1 * B\<close> and \<open>r2 = C2 + C2 * (B + r1)\<close> in this order and the total is
  \<open>(B + r1) + r2\<close>, every sum and product being the one of the context, rounded to 28
  significant digits; when none of them needs rounding, the total is the exact
  \<open>B + (C1 + C1 * B) + (C2 + C2 * (B + C1 + C1 * B))\<close>.
\<close>

theorem compound_permutation_invariant:
  assumes "\<forall>r\<in>set rates. \<not> override r"
    and "filter (\<lambda>r. \<not> compound r) rates' = filter (\<lambda>r. \<not> compound r) rates"
    and "mset (filter compound rates') = mset (filter compound rates)"
    and "distinct (map compound_order (filter compound rates))"
    and "B = foldl dec_add 0 (map percentage (filter (\<lambda>r. \<not> compound r) rates))"
  shows "tax_rate_list rates' = tax_rate_list rates \<and>
    (\<forall>cs. mset cs = mset (filter compound rates) \<and> sorted (map compound_order cs) \<longrightarrow>
       tax_rate_list rates =
         (foldl dec_add B (map snd (compound_entries cs B)),
          map (\<lambda>r. (taxCode r, percentage r)) (filter (\<lambda>r. \<not> compound r) rates) @
            compound_entries cs B)) \<and>
    (\<forall>c1 c2. mset (filter compound rates) = {#c1, c2#} \<and>
        compound_order c1 < compound_order c2 \<longrightarrow>
       (let r1 = dec_add (percentage c1) (dec_mul (percentage c1) B);
            r2 = dec_add (percentage c2) (dec_mul (percentage c2) (dec_add B r1))
        in tax_rate_list rates =
            (dec_add (dec_add B r1) r2,
             map (\<lambda>r. (taxCode r, percentage r)) (filter (\<lambda>r. \<not> compound r) rates) @
               [(taxCode c1, r1), (taxCode c2, r2)])) \<and>
       (let e1 = percentage c1 + percentage c1 * B;
            e2 = percentage c2 + percentage c2 * (B + e1)
        in dec_round (percentage c1 * B) = percentage c1 * B \<and>
           dec_round e1 = e1 \<and>
           dec_round (B + e1) = B + e1 \<and>
           dec_round (percentage c2 * (B + e1)) = percentage c2 * (B + e1) \<and>
           dec_round e2 = e2 \<and>
           dec_round (B + e1 + e2) = B + e1 + e2 \<longrightarrow>
           fst (tax_rate_list rates) =
             B + (percentage c1 + percentage c1 * B) +
             (percentage c2 + percentage c2 * (B + percentage c1 + percentage c1 * B))))"
proof -
  have no: "filter override rates = []" using assms(1) by (rule no_override_filter)
  have arr: "tax_rate_list rates =
         (foldl dec_add B (map snd (compound_entries cs B)),
          map (\<lambda>r. (taxCode r, percentage r)) (filter (\<lambda>r. \<not> compound r) rates) @
            compound_entries cs B)"
    if "mset cs = mset (filter compound rates)" and "sorted (map compound_order cs)" for cs
  proof -
    have "sort_key compound_order (filter compound rates) = cs"
      using that assms(4) by (rule sorted_arrangement_unique)
    then show ?thesis using assms(5) by (simp add: tax_rate_list_entries[OF no])
  qed
  have two: "tax_rate_list rates =
      (dec_add (dec_add B (dec_add (percentage c1) (dec_mul (percentage c1) B)))
         (dec_add (percentage c2) (dec_mul (percentage c2)
            (dec_add B (dec_add (percentage c1) (dec_mul (percentage c1) B))))),
       map (\<lambda>r. (taxCode r, percentage r)) (filter (\<lambda>r. \<not> compound r) rates) @
         [(taxCode c1, dec_add (percentage c1) (dec_mul (percentage c1) B)),
          (taxCode c2, dec_add (percentage c2) (dec_mul (percentage c2)
            (dec_add B (dec_add (percentage c1) (dec_mul (percentage c1) B)))))])"
    if "mset (filter compound rates) = {#c1, c2#}" and "compound_order c1 < compound_order c2"
    for c1 c2
  proof -
    have "mset [c1, c2] = mset (filter compound rates)" using that(1) by simp
    moreover have "sorted (map compound_order [c1, c2])" using that(2) by simp
    ultimately have "tax_rate_list rates =
         (foldl dec_add B (map snd (compound_entries [c1, c2] B)),
          map (\<lambda>r. (taxCode r, percentage r)) (filter (\<lambda>r. \<not> compound r) rates) @
            compound_entries [c1, c2] B)"
      by (rule arr)
    then show ?thesis by (simp add: Let_def)
  qed
  have p1: "tax_rate_list rates' = tax_rate_list rates"
  proof -
    have "mset rates' = mset (filter compound rates') + mset (filter (\<lambda>r. \<not> compound r) rates')"
      by simp
    also have "\<dots> = mset (filter compound rates) + mset (filter (\<lambda>r. \<not> compound r) rates)"
      using assms(2,3) by simp
    also have "\<dots> = mset rates" by simp
    finally have "set rates' = set rates" by (rule mset_eq_setD)
    with assms(1) have no': "filter override rates' = []"
      by (simp add: filter_empty_conv)
    have "sort_key compound_order (filter compound rates') =
        sort_key compound_order (filter compound rates)"
      using assms(3)[symmetric] assms(4) by (rule sort_key_perm_distinct)
    then show ?thesis
      using assms(2) by (simp add: tax_rate_list_no_override[OF no] tax_rate_list_no_override[OF no'])
  qed
  have p2: "\<forall>cs. mset cs = mset (filter compound rates) \<and> sorted (map compound_order cs) \<longrightarrow>
       tax_rate_list rates =
         (foldl dec_add B (map snd (compound_entries cs B)),
          map (\<lambda>r. (taxCode r, percentage r)) (filter (\<lambda>r. \<not> compound r) rates) @
            compound_entries cs B)"
    using arr by blast
  have p3: "\<forall>c1 c2. mset (filter compound rates) = {#c1, c2#} \<and>
        compound_order c1 < compound_order c2 \<longrightarrow>
       (let r1 = dec_add (percentage c1) (dec_mul (percentage c1) B);
            r2 = dec_add (percentage c2) (dec_mul (percentage c2) (dec_add B r1))
        in tax_rate_list rates =
            (dec_add (dec_add B r1) r2,
             map (\<lambda>r. (taxCode r, percentage r)) (filter (\<lambda>r. \<not> compound r) rates) @
               [(taxCode c1, r1), (taxCode c2, r2)])) \<and>
       (let e1 = percentage c1 + percentage c1 * B;
            e2 = percentage c2 + percentage c2 * (B + e1)
        in dec_round (percentage c1 * B) = percentage c1 * B \<and>
           dec_round e1 = e1 \<and>
           dec_round (B + e1) = B + e1 \<and>
           dec_round (percentage c2 * (B + e1)) = percentage c2 * (B + e1) \<and>
           dec_round e2 = e2 \<and>
           dec_round (B + e1 + e2) = B + e1 + e2 \<longrightarrow>
           fst (tax_rate_list rates) =
             B + (percentage c1 + percentage c1 * B) +
             (percentage c2 + percentage c2 * (B + percentage c1 + percentage c1 * B)))"
  proof (intro allI impI)
    fix c1 c2
    assume h: "mset (filter compound rates) = {#c1, c2#} \<and>
        compound_order c1 < compound_order c2"
    then have h1: "mset (filter compound rates) = {#c1, c2#}"
      and h2: "compound_order c1 < compound_order c2"
      by blast+
    note r = two [OF h1 h2]
    have exact: "fst (tax_rate_list rates) =
             B + (percentage c1 + percentage c1 * B) +
             (percentage c2 + percentage c2 * (B + percentage c1 + percentage c1 * B))"
      if c: "dec_round (percentage c1 * B) = percentage c1 * B"
        "dec_round (percentage c1 + percentage c1 * B) = percentage c1 + percentage c1 * B"
        "dec_round (B + (percentage c1 + percentage c1 * B)) =
           B + (percentage c1 + percentage c1 * B)"
        "dec_round (percentage c2 * (B + (percentage c1 + percentage c1 * B))) =
           percentage c2 * (B + (percentage c1 + percentage c1 * B))"
        "dec_round (percentage c2 + percentage c2 * (B + (percentage c1 + percentage c1 * B))) =
           percentage c2 + percentage c2 * (B + (percentage c1 + percentage c1 * B))"
        "dec_round (B + (percentage c1 + percentage c1 * B) +
           (percentage c2 + percentage c2 * (B + (percentage c1 + percentage c1 * B)))) =
           B + (percentage c1 + percentage c1 * B) +
           (percentage c2 + percentage c2 * (B + (percentage c1 + percentage c1 * B)))"
    proof -
      have "fst (tax_rate_list rates) =
           B + (percentage c1 + percentage c1 * B) +
           (percentage c2 + percentage c2 * (B + (percentage c1 + percentage c1 * B)))"
        by (simp only: r fst_conv dec_add_def dec_mul_def c)
      then show ?thesis by (simp only: add.assoc)
    qed
    show "(let r1 = dec_add (percentage c1) (dec_mul (percentage c1) B);
            r2 = dec_add (percentage c2) (dec_mul (percentage c2) (dec_add B r1))
        in tax_rate_list rates =
            (dec_add (dec_add B r1) r2,
             map (\<lambda>r. (taxCode r, percentage r)) (filter (\<lambda>r. \<not> compound r) rates) @
               [(taxCode c1, r1), (taxCode c2, r2)])) \<and>
       (let e1 = percentage c1 + percentage c1 * B;
            e2 = percentage c2 + percentage c2 * (B + e1)
        in dec_round (percentage c1 * B) = percentage c1 * B \<and>
           dec_round e1 = e1 \<and>
           dec_round (B + e1) = B + e1 \<and>
           dec_round (percentage c2 * (B + e1)) = percentage c2 * (B + e1) \<and>
           dec_round e2 = e2 \<and>
           dec_round (B + e1 + e2) = B + e1 + e2 \<longrightarrow>
           fst (tax_rate_list rates) =
             B + (percentage c1 + percentage c1 * B) +
             (percentage c2 + percentage c2 * (B + percentage c1 + percentage c1 * B)))"
      unfolding Let_def using r exact by blast
  qed
  from p1 p2 p3 show ?thesis by (intro conjI)
qed

theorem compound_permutation_invariant_witness:
  "tax_rate_list [ex_qst, ex_gst, ex_pst] =
     (23585 / 100000,
      [(''GST'', 5 / 100), (''PST'', 735 / 10000), (''QST'', 11235 / 100000)]) \<and>
   fst (tax_rate_list [ex_gst, ex_pst, ex_qst]) =
     5 / 100 + (7 / 100 + 7 / 100 * (5 / 100)) +
     (1 / 10 + 1 / 10 * (5 / 100 + 7 / 100 + 7 / 100 * (5 / 100)))"
proof -
  have a1: "\<forall>r\<in>set [ex_gst, ex_pst, ex_qst]. \<not> override r" by simp
  have a2: "filter (\<lambda>r. \<not> compound r) [ex_qst, ex_gst, ex_pst] =
            filter (\<lambda>r. \<not> compound r) [ex_gst, ex_pst, ex_qst]"
    by simp
  have a3: "mset (filter compound [ex_qst, ex_gst, ex_pst]) =
            mset (filter compound [ex_gst, ex_pst, ex_qst])"
    by simp
  have a4: "distinct (map compound_order (filter compound [ex_gst, ex_pst, ex_qst]))" by simp
  have a5: "5 / 100 =
      foldl dec_add 0 (map percentage (filter (\<lambda>r. \<not> compound r) [ex_gst, ex_pst, ex_qst]))"
    by (simp add: dec_eval)
  note t = compound_permutation_invariant [OF a1 a2 a3 a4 a5]
  from t have p1: "tax_rate_list [ex_qst, ex_gst, ex_pst] = tax_rate_list [ex_gst, ex_pst, ex_qst]"
    by (rule conjunct1)
  have h: "mset (filter compound [ex_gst, ex_pst, ex_qst]) = {#ex_pst, ex_qst#} \<and>
      compound_order ex_pst < compound_order ex_qst"
    by simp
  from t h have p3:
     "(let r1 = dec_add (percentage ex_pst) (dec_mul (percentage ex_pst) (5 / 100));
            r2 = dec_add (percentage ex_qst) (dec_mul (percentage ex_qst) (dec_add (5 / 100) r1))
        in tax_rate_list [ex_gst, ex_pst, ex_qst] =
            (dec_add (dec_add (5 / 100) r1) r2,
             map (\<lambda>r. (taxCode r, percentage r)) (filter (\<lambda>r. \<not> compound r) [ex_gst, ex_pst, ex_qst]) @
               [(taxCode ex_pst, r1), (taxCode ex_qst, r2)])) \<and>
       (let e1 = percentage ex_pst + percentage ex_pst * (5 / 100);
            e2 = percentage ex_qst + percentage ex_qst * (5 / 100 + e1)
        in dec_round (percentage ex_pst * (5 / 100)) = percentage ex_pst * (5 / 100) \<and>
           dec_round e1 = e1 \<and>
           dec_round (5 / 100 + e1) = 5 / 100 + e1 \<and>
           dec_round (percentage ex_qst * (5 / 100 + e1)) = percentage ex_qst * (5 / 100 + e1) \<and>
           dec_round e2 = e2 \<and>
           dec_round (5 / 100 + e1 + e2) = 5 / 100 + e1 + e2 \<longrightarrow>
           fst (tax_rate_list [ex_gst, ex_pst, ex_qst]) =
             5 / 100 + (percentage ex_pst + percentage ex_pst * (5 / 100)) +
             (percentage ex_qst +
              percentage ex_qst * (5 / 100 + percentage ex_pst + percentage ex_pst * (5 / 100))))"
    by blast
  from p3 have r: "tax_rate_list [ex_gst, ex_pst, ex_qst] =
     (23585 / 100000,
      [(''GST'', 5 / 100), (''PST'', 735 / 10000), (''QST'', 11235 / 100000)])"
    by (simp add: dec_eval)
  from p3 have e: "fst (tax_rate_list [ex_gst, ex_pst, ex_qst]) =
     5 / 100 + (7 / 100 + 7 / 100 * (5 / 100)) +
     (1 / 10 + 1 / 10 * (5 / 100 + 7 / 100 + 7 / 100 * (5 / 100)))"
    by (simp add: dec_eval)
  from p1 r e show ?thesis by (simp only: simp_thms)
qed

text \<open>
  C10: without override records the breakdown lists the regular records in input order,
  then the compound records in ascending \<open>compound_order\<close>, the records of one
  \<open>compound_order\<close> value in their relative input order (the sort is stable). Total and
  breakdown are not invariant under a permutation of tied records: the five records
  \<open>tie_a\<close> to \<open>tie_e\<close>, all of \<open>compound_order\<close> 1, give the total
  4.422232357937490216978962667 in this order and 4.422232357937490216978962666 with
  \<open>tie_a\<close> moved to the end, and different breakdowns.
\<close>

theorem tied_compound_order_stable:
  assumes "\<forall>r\<in>set rates. \<not> override r"
  shows "map fst (snd (tax_rate_list rates)) =
           map taxCode (filter (\<lambda>r. \<not> compound r) rates) @
           map taxCode (sort_key compound_order (filter compound rates)) \<and>
         sorted (map compound_order (sort_key compound_order (filter compound rates))) \<and>
         (\<forall>k. filter (\<lambda>r. compound_order r = k) (sort_key compound_order (filter compound rates)) =
              filter (\<lambda>r. compound_order r = k) (filter compound rates)) \<and>
         mset [tie_b, tie_c, tie_d, tie_e, tie_a] = mset [tie_a, tie_b, tie_c, tie_d, tie_e] \<and>
         map compound_order [tie_a, tie_b, tie_c, tie_d, tie_e] = [1, 1, 1, 1, 1] \<and>
         fst (tax_rate_list [tie_a, tie_b, tie_c, tie_d, tie_e]) =
           4422232357937490216978962667 / 1000000000000000000000000000 \<and>
         fst (tax_rate_list [tie_b, tie_c, tie_d, tie_e, tie_a]) =
           4422232357937490216978962666 / 1000000000000000000000000000 \<and>
         snd (tax_rate_list [tie_a, tie_b, tie_c, tie_d, tie_e]) \<noteq>
           snd (tax_rate_list [tie_b, tie_c, tie_d, tie_e, tie_a])"
proof (intro conjI allI)
  have no: "filter override rates = []" using assms by (rule no_override_filter)
  show "map fst (snd (tax_rate_list rates)) =
           map taxCode (filter (\<lambda>r. \<not> compound r) rates) @
           map taxCode (sort_key compound_order (filter compound rates))"
    by (simp add: tax_rate_list_entries[OF no] compound_entries_codes comp_def)
  show "sorted (map compound_order (sort_key compound_order (filter compound rates)))"
    by simp
  show "filter (\<lambda>r. compound_order r = k) (sort_key compound_order (filter compound rates)) =
        filter (\<lambda>r. compound_order r = k) (filter compound rates)" for k
    by (rule sort_key_stable)
  show "mset [tie_b, tie_c, tie_d, tie_e, tie_a] = mset [tie_a, tie_b, tie_c, tie_d, tie_e]"
    by simp
  show "map compound_order [tie_a, tie_b, tie_c, tie_d, tie_e] = [1, 1, 1, 1, 1]"
    by simp
  show "fst (tax_rate_list [tie_a, tie_b, tie_c, tie_d, tie_e]) =
           4422232357937490216978962667 / 1000000000000000000000000000"
    by (simp add: tax_rate_list_def dec_eval cong: let_weak_cong)
  show "fst (tax_rate_list [tie_b, tie_c, tie_d, tie_e, tie_a]) =
           4422232357937490216978962666 / 1000000000000000000000000000"
    by (simp add: tax_rate_list_def dec_eval cong: let_weak_cong)
  show "snd (tax_rate_list [tie_a, tie_b, tie_c, tie_d, tie_e]) \<noteq>
           snd (tax_rate_list [tie_b, tie_c, tie_d, tie_e, tie_a])"
    by (simp add: tax_rate_list_def dec_eval cong: let_weak_cong)
qed

theorem tied_compound_order_stable_witness:
  "map fst (snd (tax_rate_list [ex_tie, ex_gst, ex_qst, ex_pst])) = [''GST'', ''TIE'', ''PST'', ''QST''] \<and>
   map fst (snd (tax_rate_list [ex_pst, ex_gst, ex_qst, ex_tie])) = [''GST'', ''PST'', ''TIE'', ''QST'']"
proof -
  have h1: "\<forall>r\<in>set [ex_tie, ex_gst, ex_qst, ex_pst]. \<not> override r" by simp
  have h2: "\<forall>r\<in>set [ex_pst, ex_gst, ex_qst, ex_tie]. \<not> override r" by simp
  note t1 = tied_compound_order_stable [OF h1]
  note t2 = tied_compound_order_stable [OF h2]
  from t1 have a: "map fst (snd (tax_rate_list [ex_tie, ex_gst, ex_qst, ex_pst])) =
      map taxCode (filter (\<lambda>r. \<not> compound r) [ex_tie, ex_gst, ex_qst, ex_pst]) @
      map taxCode (sort_key compound_order (filter compound [ex_tie, ex_gst, ex_qst, ex_pst]))"
    by (rule conjunct1)
  from t2 have b: "map fst (snd (tax_rate_list [ex_pst, ex_gst, ex_qst, ex_tie])) =
      map taxCode (filter (\<lambda>r. \<not> compound r) [ex_pst, ex_gst, ex_qst, ex_tie]) @
      map taxCode (sort_key compound_order (filter compound [ex_pst, ex_gst, ex_qst, ex_tie]))"
    by (rule conjunct1)
  from a have a': "map fst (snd (tax_rate_list [ex_tie, ex_gst, ex_qst, ex_pst])) = [''GST'', ''TIE'', ''PST'', ''QST'']"
    by simp
  from b have b': "map fst (snd (tax_rate_list [ex_pst, ex_gst, ex_qst, ex_tie])) = [''GST'', ''PST'', ''TIE'', ''QST'']"
    by simp
  from a' b' show ?thesis by (intro conjI)
qed

text \<open>
  A rate list of regular records only, none overriding: the total is the percentages
  added in input order and the breakdown lists the records in input order.
\<close>

theorem regular_rates_only:
  assumes "\<forall>r\<in>set rates. \<not> override r \<and> \<not> compound r"
  shows "tax_rate_list rates =
     (foldl dec_add 0 (map percentage rates), map (\<lambda>r. (taxCode r, percentage r)) rates)"
proof -
  have "filter override rates = []" "filter compound rates = []"
    "filter (\<lambda>r. \<not> compound r) rates = rates"
    using assms by (simp_all add: filter_empty_conv filter_id_conv)
  then show ?thesis by (simp add: tax_rate_list_entries)
qed

theorem regular_rates_only_witness:
  "tax_rate_list [ex_gst, ex_rate ''RST'' (8 / 100) False 0 False 1] =
     (13 / 100, [(''GST'', 5 / 100), (''RST'', 8 / 100)])"
  using regular_rates_only [of "[ex_gst, ex_rate ''RST'' (8 / 100) False 0 False 1]"]
  by (simp add: dec_eval)

text \<open>The empty rate list gives the zero rate and the empty breakdown.\<close>

theorem empty_rate_list: "tax_rate_list [] = (0, [])"
  by (simp add: tax_rate_list_def)

section \<open>Properties of the lookups and of \<^verbatim>\<open>get_rate\<close>\<close>

lemma snd_bind_logged:
  "snd (bind_logged m f) = (case snd m of Inl e \<Rightarrow> Inl e | Inr x \<Rightarrow> snd (f x))"
  by (cases m) (auto simp: bind_logged_def split: sum.splits prod.splits)

lemma fst_bind_logged:
  "fst (bind_logged m f) = (case snd m of Inl e \<Rightarrow> fst m | Inr x \<Rightarrow> fst m @ fst (f x))"
  by (cases m) (auto simp: bind_logged_def split: sum.splits prod.splits)

lemma objects_get_error:
  "objects_get p rows = Inl e \<Longrightarrow> e = DoesNotExist \<or> e = MultipleObjectsReturned"
  by (auto simp: objects_get_def split: list.splits)

lemma objects_get_DoesNotExist:
  "objects_get p rows = Inl DoesNotExist \<longleftrightarrow> filter p rows = []"
  by (auto simp: objects_get_def split: list.splits)

lemma location_of_order_error:
  "snd (location_of_order db b ord) = Inl e \<Longrightarrow> e = MultipleObjectsReturned"
  by (auto simp: location_of_order_def Let_def split: if_splits sum.splits dest: objects_get_error)

lemma location_of_user_error:
  "snd (location_of_user db b u) = Inl e \<Longrightarrow> e = MultipleObjectsReturned"
  by (auto simp: location_of_user_def Let_def split: if_splits sum.splits option.splits dest: objects_get_error)

lemma resolve_area_error:
  "snd (resolve_area db area c) = Inl e \<Longrightarrow> e = MultipleObjectsReturned"
  by (auto simp: resolve_area_def Let_def split: if_splits sum.splits dest: objects_get_error)

lemma get_location_error:
  "snd (get_location db cfg self) = Inl e \<Longrightarrow> e = MultipleObjectsReturned"
  by (auto simp: get_location_def Let_def snd_bind_logged
      split: if_splits sum.splits option.splits prod.splits
      dest: location_of_order_error location_of_user_error resolve_area_error)

lemma lookup_taxclass_ImproperlyConfigured:
  "lookup_taxclass db tc = Inl ImproperlyConfigured \<longleftrightarrow>
     (\<exists>n. tc = ByName n \<and> filter (\<lambda>c. iexact (title c) n) (tax_classes db) = [])"
  by (cases tc) (auto simp: lookup_taxclass_def objects_get_DoesNotExist[symmetric] split: sum.splits dest: objects_get_error)

lemma lower_char_idem: "lower_char (lower_char c) = lower_char c"
  by (cases c) (simp add: lower_char_def)

lemma same_letter_lower: "same_letter a b \<Longrightarrow> lower_char a = lower_char b"
  by (auto simp: same_letter_def lower_char_idem)

lemma differ_only_in_case_lower:
  "differ_only_in_case s t \<Longrightarrow> map lower_char s = map lower_char t"
  unfolding differ_only_in_case_def
  by (induction rule: list_all2_induct) (simp_all add: same_letter_lower)

lemma differ_only_in_case_Nil: "differ_only_in_case s t \<Longrightarrow> s = [] \<longleftrightarrow> t = []"
  by (auto simp: differ_only_in_case_def)

lemma get_rate_object_error:
  "snd (get_rate db cfg self (ByObject tc) area c get_object) = Inl e \<Longrightarrow>
     e = MultipleObjectsReturned"
  by (auto simp: get_rate_def snd_bind_logged default_taxclass_def lookup_taxclass_def Let_def
      split: if_splits sum.splits prod.splits dest: get_location_error)

lemma unpack_get_rate:
  "snd (get_rate db cfg self taxclass area c True) = Inr rv \<Longrightarrow> \<exists>f t. rv = Full f t"
  by (auto simp: get_rate_def snd_bind_logged Let_def split: if_splits sum.splits prod.splits)

lemma shipping_rate_error:
  assumes "snd (shipping_rate db cfg self) = Inl e"
  shows "e = MultipleObjectsReturned"
proof -
  let ?m = "bind_logged ([], objects_get (\<lambda>c. title c = TAX_CLASS cfg) (tax_classes db))
                (\<lambda>taxclass.
                   bind_logged (get_rate db cfg self (ByObject taxclass) None None True)
                     (\<lambda>rv. bind_logged (unpack_rate rv)
                        (\<lambda>(full_rate, taxes). ([], Inr (Some full_rate, taxes)))))"
  have inner: "e' = DoesNotExist \<or> e' = MultipleObjectsReturned" if "snd ?m = Inl e'" for e'
    using that
    by (auto simp: snd_bind_logged unpack_rate_def
        split: sum.splits rate_value.splits prod.splits
        dest: objects_get_error get_rate_object_error unpack_get_rate)
  obtain l r where m: "?m = (l, r)" by (cases ?m)
  show ?thesis using assms inner[of e] m
    by (auto simp: shipping_rate_def split: if_splits sum.splits)
qed

lemma shipping_error:
  assumes "snd (shipping db cfg self subtotal with_details) = Inl e"
  shows "e = MultipleObjectsReturned"
  using assms
  by (auto simp: shipping_def snd_bind_logged Let_def
      split: option.splits if_splits sum.splits prod.splits dest: shipping_rate_error)

text \<open>
  C8, the claim as it stands: it says that \<^verbatim>\<open>get_rate\<close> raises the configuration error
  exactly when the argument is a name that no tax class has. With no argument and no
  class titled \<^verbatim>\<open>Default\<close> the error is raised although the argument is not a name; and
  for the empty name, which no class has, the class \<^verbatim>\<open>Default\<close> is used and no error is
  raised.
\<close>

theorem get_rate_name_counterexample:
  "snd (get_rate (ex_db\<lparr>tax_classes := [ex_shipping]\<rparr>) (ex_cfg False) ex_self NoClass None None False) =
     Inl ImproperlyConfigured \<and>
   (\<nexists>n. NoClass = ByName n) \<and>
   filter (\<lambda>tc. iexact (title tc) []) (tax_classes ex_db) = [] \<and>
   snd (get_rate ex_db (ex_cfg False) ex_self (ByName []) None None False) = Inr (Scalar (1235 / 10000))"
proof (intro conjI)
  show "snd (get_rate (ex_db\<lparr>tax_classes := [ex_shipping]\<rparr>) (ex_cfg False) ex_self NoClass None None False) =
     Inl ImproperlyConfigured"
    by (simp add: program_eval dec_eval cong: let_weak_cong bind_logged_weak_cong)
  show "\<nexists>n. NoClass = ByName n" by simp
  show "filter (\<lambda>tc. iexact (title tc) []) (tax_classes ex_db) = []"
    by (simp add: iexact_def)
  show "snd (get_rate ex_db (ex_cfg False) ex_self (ByName []) None None False) = Inr (Scalar (1235 / 10000))"
    by (simp add: program_eval dec_eval cong: let_weak_cong bind_logged_weak_cong)
qed

text \<open>
  C8, amended: \<^verbatim>\<open>get_rate\<close> raises \<^verbatim>\<open>ImproperlyConfigured\<close> exactly when it gets past
  the location lookup and the tax class, after an absent or empty argument has become the
  name \<^verbatim>\<open>Default\<close>, is a name that no tax class has for its title, compared without
  regard to case. For a class object, and for a name that a class has, the error is not
  raised.
\<close>

theorem get_rate_configuration_error:
  "snd (get_rate db cfg self taxclass area c get_object) = Inl ImproperlyConfigured \<longleftrightarrow>
     location_resolved db cfg self area c \<and>
     (\<exists>n. default_taxclass taxclass = ByName n \<and>
          filter (\<lambda>tc. iexact (title tc) n) (tax_classes db) = [])"
proof (cases "area = None \<and> c = None")
  case True
  show ?thesis
  proof (cases "snd (get_location db cfg self)")
    case (Inl e)
    then have "e = MultipleObjectsReturned" by (rule get_location_error)
    with Inl True show ?thesis
      by (simp add: get_rate_def snd_bind_logged location_resolved_def)
  next
    case (Inr loc)
    with True show ?thesis
      by (cases "lookup_taxclass db (default_taxclass taxclass)")
        (auto simp: get_rate_def snd_bind_logged location_resolved_def Let_def
          lookup_taxclass_ImproperlyConfigured[symmetric] split: prod.splits)
  qed
next
  case False
  then show ?thesis
    by (cases "lookup_taxclass db (default_taxclass taxclass)")
      (auto simp: get_rate_def snd_bind_logged location_resolved_def Let_def
        lookup_taxclass_ImproperlyConfigured[symmetric] split: prod.splits)
qed

theorem get_rate_configuration_error_witness:
  "snd (get_rate (ex_db\<lparr>tax_classes := [ex_shipping]\<rparr>) (ex_cfg False) ex_self NoClass None None False) =
     Inl ImproperlyConfigured"
proof -
  have "location_resolved (ex_db\<lparr>tax_classes := [ex_shipping]\<rparr>) (ex_cfg False) ex_self None None"
    by (simp add: location_resolved_def get_location_def bind_logged_def resolve_area_def)
  moreover have "default_taxclass NoClass = ByName ''Default'' \<and>
      filter (\<lambda>tc. iexact (title tc) ''Default'') (tax_classes (ex_db\<lparr>tax_classes := [ex_shipping]\<rparr>)) = []"
    by (simp add: default_taxclass_def iexact_def lower_char_def)
  ultimately show ?thesis
    using get_rate_configuration_error
      [of "ex_db\<lparr>tax_classes := [ex_shipping]\<rparr>" "ex_cfg False" ex_self NoClass None None False]
    by blast
qed

text \<open>
  C9, the claim as it stands: it says that the \<^verbatim>\<open>TAX_CLASS\<close> value used by \<^verbatim>\<open>shipping\<close>
  is looked up without regard to case. The lookup of line 189 is by the exact title: with
  \<^verbatim>\<open>TAX_CLASS = 'shipping'\<close> the class \<^verbatim>\<open>Shipping\<close> is not found, the error is logged and
  the tax is 0, while \<^verbatim>\<open>TAX_CLASS = 'Shipping'\<close> gives the tax 0.50.
\<close>

theorem shipping_case_sensitive_counterexample:
  "differ_only_in_case ''shipping'' ''Shipping'' \<and>
   shipping ex_db (ex_cfg False\<lparr>TAX_CLASS := ''shipping''\<rparr>) ex_self (Some 10) False =
     ([(ERROR, shipping_class_missing)], Inr (ShipTax 0)) \<and>
   snd (shipping ex_db (ex_cfg False\<lparr>TAX_CLASS := ''Shipping''\<rparr>) ex_self (Some 10) False) =
     Inr (ShipTax (1 / 2))"
proof (intro conjI)
  show "differ_only_in_case ''shipping'' ''Shipping''"
    by (simp add: differ_only_in_case_def same_letter_def lower_char_def)
  show "shipping ex_db (ex_cfg False\<lparr>TAX_CLASS := ''shipping''\<rparr>) ex_self (Some 10) False =
     ([(ERROR, shipping_class_missing)], Inr (ShipTax 0))"
    by (simp add: shipping_def shipping_rate_def bind_logged_def objects_get_def)
  show "snd (shipping ex_db (ex_cfg False\<lparr>TAX_CLASS := ''Shipping''\<rparr>) ex_self (Some 10) False) =
     Inr (ShipTax (1 / 2))"
    by (simp add: program_eval dec_eval cong: let_weak_cong bind_logged_weak_cong)
qed

text \<open>
  C9, amended: a tax class name passed to \<^verbatim>\<open>get_rate\<close> is looked up without regard to
  letter case: two names that differ only in letter case resolve to the same class and
  give the same result, log included. The \<^verbatim>\<open>TAX_CLASS\<close> value of \<^verbatim>\<open>shipping\<close> is
  matched against the exact title: when no class has exactly that title the shipping
  class counts as missing.
\<close>

theorem get_rate_case_insensitive:
  assumes "differ_only_in_case n1 n2"
  shows "lookup_taxclass db (ByName n1) = lookup_taxclass db (ByName n2) \<and>
         get_rate db cfg self (ByName n1) area c get_object =
         get_rate db cfg self (ByName n2) area c get_object \<and>
         (TAX_SHIPPING_CANADIAN cfg \<and>
          filter (\<lambda>tc. title tc = TAX_CLASS cfg) (tax_classes db) = [] \<longrightarrow>
            snd (shipping_rate db cfg self) = Inr (None, []))"
proof (intro conjI impI)
  have l: "map lower_char n1 = map lower_char n2"
    using assms by (rule differ_only_in_case_lower)
  then show lk: "lookup_taxclass db (ByName n1) = lookup_taxclass db (ByName n2)"
    by (simp add: lookup_taxclass_def iexact_def)
  have "lookup_taxclass db (default_taxclass (ByName n1)) =
        lookup_taxclass db (default_taxclass (ByName n2))"
    using lk differ_only_in_case_Nil[OF assms] by (simp add: default_taxclass_def)
  then show "get_rate db cfg self (ByName n1) area c get_object =
         get_rate db cfg self (ByName n2) area c get_object"
    by (simp add: get_rate_def)
next
  assume "TAX_SHIPPING_CANADIAN cfg \<and>
          filter (\<lambda>tc. title tc = TAX_CLASS cfg) (tax_classes db) = []"
  then show "snd (shipping_rate db cfg self) = Inr (None, [])"
    by (simp add: shipping_rate_def bind_logged_def objects_get_def)
qed

theorem get_rate_case_insensitive_witness:
  "get_rate ex_db (ex_cfg False) ex_self (ByName ''sHIPPING'') None None True =
   get_rate ex_db (ex_cfg False) ex_self (ByName ''Shipping'') None None True \<and>
   snd (get_rate ex_db (ex_cfg False) ex_self (ByName ''Shipping'') None None True) =
     Inr (Full (5 / 100) [(''GST'', 5 / 100)])"
proof -
  have d: "differ_only_in_case ''sHIPPING'' ''Shipping''"
    by (simp add: differ_only_in_case_def same_letter_def lower_char_def)
  have "get_rate ex_db (ex_cfg False) ex_self (ByName ''sHIPPING'') None None True =
        get_rate ex_db (ex_cfg False) ex_self (ByName ''Shipping'') None None True"
    using get_rate_case_insensitive [OF d] by blast
  moreover have "snd (get_rate ex_db (ex_cfg False) ex_self (ByName ''Shipping'') None None True) =
     Inr (Full (5 / 100) [(''GST'', 5 / 100)])"
    by (simp add: program_eval dec_eval cong: let_weak_cong bind_logged_weak_cong)
  ultimately show ?thesis by (rule conjI)
qed

section \<open>Properties of \<^verbatim>\<open>shipping\<close>\<close>

text \<open>
  C7, the claim as it stands: it says that \<^verbatim>\<open>shipping\<close> with a positive subtotal never
  raises. The handler of line 191 catches \<^verbatim>\<open>ObjectDoesNotExist\<close> only: with two classes
  titled as \<^verbatim>\<open>TAX_CLASS\<close> says, the lookup of line 189 raises
  \<^verbatim>\<open>MultipleObjectsReturned\<close>, which leaves \<^verbatim>\<open>shipping\<close>.
\<close>

theorem shipping_raises_counterexample:
  "(0::decimal) < 10 \<and>
   snd (shipping ex_db_twice (ex_cfg False) ex_self (Some 10) False) = Inl MultipleObjectsReturned"
  by (simp add: shipping_def shipping_rate_def bind_logged_def objects_get_def)

text \<open>
  C7, amended: for a call of \<^verbatim>\<open>shipping\<close> with a positive subtotal, when the
  shipping-tax flag is off the result is 0.00 and nothing is logged; when the flag is on
  and no tax class has the title \<^verbatim>\<open>TAX_CLASS\<close>, the error is logged and the result is
  0.00; and the only exception that can leave the method is \<^verbatim>\<open>MultipleObjectsReturned\<close>,
  from a lookup that several rows match.
\<close>

theorem shipping_positive_subtotal:
  assumes "0 < s"
  shows "(\<not> TAX_SHIPPING_CANADIAN cfg \<longrightarrow>
            shipping db cfg self (Some s) with_details =
              ([], Inr (if with_details then ShipTaxDetails 0 [] else ShipTax 0))) \<and>
         (TAX_SHIPPING_CANADIAN cfg \<and>
          filter (\<lambda>c. title c = TAX_CLASS cfg) (tax_classes db) = [] \<longrightarrow>
            shipping db cfg self (Some s) with_details =
              ([(ERROR, shipping_class_missing)],
               Inr (if with_details then ShipTaxDetails 0 [] else ShipTax 0))) \<and>
         (\<forall>e. snd (shipping db cfg self (Some s) with_details) = Inl e \<longrightarrow>
              e = MultipleObjectsReturned)"
proof (intro conjI impI allI)
  assume "\<not> TAX_SHIPPING_CANADIAN cfg"
  then show "shipping db cfg self (Some s) with_details =
      ([], Inr (if with_details then ShipTaxDetails 0 [] else ShipTax 0))"
    using assms by (simp add: shipping_def shipping_rate_def bind_logged_def)
next
  assume "TAX_SHIPPING_CANADIAN cfg \<and>
          filter (\<lambda>c. title c = TAX_CLASS cfg) (tax_classes db) = []"
  then show "shipping db cfg self (Some s) with_details =
      ([(ERROR, shipping_class_missing)],
       Inr (if with_details then ShipTaxDetails 0 [] else ShipTax 0))"
    using assms by (simp add: shipping_def shipping_rate_def bind_logged_def objects_get_def)
next
  fix e assume "snd (shipping db cfg self (Some s) with_details) = Inl e"
  then show "e = MultipleObjectsReturned" by (rule shipping_error)
qed

theorem shipping_positive_subtotal_witness:
  "shipping ex_db (ex_cfg False\<lparr>TAX_SHIPPING_CANADIAN := False\<rparr>) ex_self (Some 10) False =
     ([], Inr (ShipTax 0)) \<and>
   shipping ex_db (ex_cfg False\<lparr>TAX_CLASS := ''Freight''\<rparr>) ex_self (Some 10) True =
     ([(ERROR, shipping_class_missing)], Inr (ShipTaxDetails 0 []))"
  using shipping_positive_subtotal [of 10 "ex_cfg False\<lparr>TAX_SHIPPING_CANADIAN := False\<rparr>" ex_db ex_self False]
    shipping_positive_subtotal [of 10 "ex_cfg False\<lparr>TAX_CLASS := ''Freight''\<rparr>" ex_db ex_self True]
  by simp

section \<open>Properties of \<^verbatim>\<open>process\<close>\<close>

lemma amount_update:
  "amount (AList.update k v d) c = (if c = k then v else amount d c)"
  by (simp add: amount_def update_conv')

lemma amount_None: "map_of d c = None \<Longrightarrow> amount d c = 0"
  by (simp add: amount_def)

lemma amount_Some: "map_of d c = Some v \<Longrightarrow> amount d c = v"
  by (simp add: amount_def)

lemma accumulated_Nil: "accumulated [] price c s = s"
  by (simp add: accumulated_def)

lemma accumulated_Cons:
  "accumulated ((k, r) # taxes) price c s =
     accumulated taxes price c (if k = c then dec_add s (dec_mul r price) else s)"
  by (simp add: accumulated_def)

lemma accumulated_absent: "c \<notin> fst ` set taxes \<Longrightarrow> accumulated taxes price c s = s"
  by (induction taxes arbitrary: s) (auto simp: accumulated_Nil accumulated_Cons)

lemma accumulate_details_amount:
  "amount (accumulate_details taxes price d) c = accumulated taxes price c (amount d c)"
proof (induction taxes arbitrary: d)
  case Nil
  then show ?case by (simp add: accumulated_Nil)
next
  case (Cons a taxes)
  obtain k r where a: "a = (k, r)" by (cases a)
  show ?case
  proof (cases "map_of d k")
    case None
    then show ?thesis
      by (auto simp: a Cons.IH amount_update accumulated_Cons amount_None)
  next
    case (Some v)
    then show ?thesis
      by (auto simp: a Cons.IH amount_update accumulated_Cons amount_Some)
  qed
qed

lemma accumulate_details_keys:
  "fst ` set (accumulate_details taxes price d) = fst ` set d \<union> fst ` set taxes"
proof (induction taxes arbitrary: d)
  case Nil
  then show ?case by simp
next
  case (Cons a taxes)
  obtain k r where a: "a = (k, r)" by (cases a)
  show ?case
    by (cases "map_of d k") (auto simp: a Cons.IH dom_update)
qed

lemma accumulate_details_distinct:
  "distinct (map fst d) \<Longrightarrow> distinct (map fst (accumulate_details taxes price d))"
proof (induction taxes arbitrary: d)
  case Nil
  then show ?case by simp
next
  case (Cons a taxes)
  obtain k r where a: "a = (k, r)" by (cases a)
  show ?case using Cons.prems
    by (cases "map_of d k") (simp_all add: a Cons.IH distinct_update)
qed

lemma combine_details_result:
  assumes "set ks \<subseteq> fst ` set sd" and "distinct ks"
  shows "\<exists>td'. combine_details ks sd td = Inr td' \<and>
           (\<forall>c. amount td' c =
                  (if c \<in> set ks then dec_add (amount td c) (amount sd c) else amount td c)) \<and>
           fst ` set td' = fst ` set td \<union> set ks"
  using assms
proof (induction ks arbitrary: td)
  case Nil
  then show ?case by simp
next
  case (Cons k ks)
  from Cons.prems obtain v where v: "map_of sd k = Some v"
    by (cases "map_of sd k") (auto simp: map_of_eq_None_iff)
  let ?td = "AList.update k (dec_add (amount td k) v) td"
  from Cons.prems have "set ks \<subseteq> fst ` set sd" "distinct ks" "k \<notin> set ks" by auto
  from Cons.IH[OF this(1,2), of ?td] obtain td' where
    r: "combine_details ks sd ?td = Inr td'"
    and am: "\<forall>c. amount td' c =
               (if c \<in> set ks then dec_add (amount ?td c) (amount sd c) else amount ?td c)"
    and ks: "fst ` set td' = fst ` set ?td \<union> set ks"
    by blast
  have "combine_details (k # ks) sd td = Inr td'"
    using v r by (simp add: amount_def)
  moreover have "\<forall>c. amount td' c =
      (if c \<in> set (k # ks) then dec_add (amount td c) (amount sd c) else amount td c)"
    using am amount_Some[OF v] \<open>k \<notin> set ks\<close> by (auto simp: amount_update)
  moreover have "fst ` set td' = fst ` set td \<union> set (k # ks)"
    using ks by (auto simp: dom_update)
  ultimately show ?case by blast
qed

lemma process_items_result:
  assumes "snd (process_items db cfg self items (acc, d)) = Inr (acc', d')"
  shows "(\<forall>c. amount d' c =
            foldl (\<lambda>a item. accumulated (item_taxes db cfg self item) (sub_total item) c a)
              (amount d c) items) \<and>
         fst ` set d' = fst ` set d \<union> (\<Union>item\<in>set items. fst ` set (item_taxes db cfg self item)) \<and>
         (distinct (map fst d) \<longrightarrow> distinct (map fst d'))"
  using assms
proof (induction items arbitrary: acc d)
  case Nil
  then show ?case by simp
next
  case (Cons item items)
  from Cons.prems obtain rv where rv: "snd (get_rate db cfg self (item_taxclass item) None None True) = Inr rv"
    by (cases "snd (get_rate db cfg self (item_taxclass item) None None True)")
      (simp_all add: snd_bind_logged)
  then obtain full_rate taxes where f: "rv = Full full_rate taxes"
    by (auto dest: unpack_get_rate)
  have it: "item_taxes db cfg self item = taxes"
    by (simp add: item_taxes_def rv f)
  let ?d = "accumulate_details taxes (sub_total item) d"
  have "snd (process_items db cfg self items
          (dec_add acc (dec_mul (sub_total item) full_rate), ?d)) = Inr (acc', d')"
    using Cons.prems by (simp add: snd_bind_logged rv f unpack_rate_def Let_def)
  from Cons.IH[OF this]
  have am: "\<forall>c. amount d' c =
            foldl (\<lambda>a item. accumulated (item_taxes db cfg self item) (sub_total item) c a)
              (amount ?d c) items"
    and ks: "fst ` set d' = fst ` set ?d \<union> (\<Union>item\<in>set items. fst ` set (item_taxes db cfg self item))"
    and di: "distinct (map fst ?d) \<longrightarrow> distinct (map fst d')"
    by blast+
  have "\<forall>c. amount d' c =
            foldl (\<lambda>a item. accumulated (item_taxes db cfg self item) (sub_total item) c a)
              (amount d c) (item # items)"
    using am by (simp add: accumulate_details_amount it)
  moreover have "fst ` set d' = fst ` set d \<union>
      (\<Union>item\<in>set (item # items). fst ` set (item_taxes db cfg self item))"
    using ks by (auto simp: accumulate_details_keys it)
  moreover have "distinct (map fst d) \<longrightarrow> distinct (map fst d')"
    using di by (simp add: accumulate_details_distinct)
  ultimately show ?case by blast
qed

lemma shipping_details_result:
  assumes "snd (shipping db cfg self None True) = Inr sv" and "order self = Some ord"
  shows "\<exists>ship_taxes. sv = ShipTaxDetails ship_taxes
           (accumulate_details (shipping_taxes db cfg self ord) (shipping_sub_total ord) [])"
proof (cases "shipping_sub_total ord = 0")
  case True
  with assms show ?thesis
    by (auto simp: shipping_def snd_bind_logged shipping_taxes_def)
next
  case False
  with assms obtain fr taxes where sr: "snd (shipping_rate db cfg self) = Inr (fr, taxes)"
    by (cases "snd (shipping_rate db cfg self)") (auto simp: shipping_def snd_bind_logged)
  with assms False show ?thesis
    by (auto simp: shipping_def snd_bind_logged shipping_taxes_def Let_def)
qed

text \<open>
  C6, the claim as it stands: it says that the detail of a code is the sum over the
  taxable items of the code's rate times the item subtotal, plus the shipping
  contribution. With the five rates of \<open>ex_six\<close> and one item of 19.99 without shipping,
  the rate of \<^verbatim>\<open>SST\<close> is 0.04325433929142548182839687398 and the detail of \<^verbatim>\<open>SST\<close> is
  0.8646542424355953817496535109: the product has 31 digits and is rounded to 28.
\<close>

theorem combined_details_counterexample:
  "snd (process ex_db_fine (ex_cfg False) ex_self (Some ex_order_fine)) =
     Inr (7614332694798144297807716071 / 1000000000000000000000000000,
          [(''GST'', 111122411 / 100000000),
           (''PST'', 216412044349749 / 100000000000000),
           (''QST'', 233751569797899981528 / 100000000000000000000),
           (''RST'', 113681820088605910077806256 / 100000000000000000000000000),
           (''SST'', 8646542424355953817496535109 / 10000000000000000000000000000)]) \<and>
   merchandise_contribution ex_db_fine (ex_cfg False) (ex_self\<lparr>order := Some ex_order_fine\<rparr>)
     (filter (\<lambda>item. taxable (product item)) (orderitem_set ex_order_fine)) ''SST'' +
   contribution
     (shipping_taxes ex_db_fine (ex_cfg False) (ex_self\<lparr>order := Some ex_order_fine\<rparr>) ex_order_fine)
     (shipping_sub_total ex_order_fine) ''SST'' =
     4325433929142548182839687398 / 100000000000000000000000000000 * (1999 / 100) \<and>
   amount [(''GST'', 111122411 / 100000000),
           (''PST'', 216412044349749 / 100000000000000),
           (''QST'', 233751569797899981528 / 100000000000000000000),
           (''RST'', 113681820088605910077806256 / 100000000000000000000000000),
           (''SST'', 8646542424355953817496535109 / 10000000000000000000000000000)] ''SST'' \<noteq>
     4325433929142548182839687398 / 100000000000000000000000000000 * (1999 / 100)"
proof (intro conjI)
  show "snd (process ex_db_fine (ex_cfg False) ex_self (Some ex_order_fine)) =
     Inr (7614332694798144297807716071 / 1000000000000000000000000000,
          [(''GST'', 111122411 / 100000000),
           (''PST'', 216412044349749 / 100000000000000),
           (''QST'', 233751569797899981528 / 100000000000000000000),
           (''RST'', 113681820088605910077806256 / 100000000000000000000000000),
           (''SST'', 8646542424355953817496535109 / 10000000000000000000000000000)])"
    by (simp add: program_eval dec_eval cong: let_weak_cong bind_logged_weak_cong)
  show "merchandise_contribution ex_db_fine (ex_cfg False) (ex_self\<lparr>order := Some ex_order_fine\<rparr>)
     (filter (\<lambda>item. taxable (product item)) (orderitem_set ex_order_fine)) ''SST'' +
   contribution
     (shipping_taxes ex_db_fine (ex_cfg False) (ex_self\<lparr>order := Some ex_order_fine\<rparr>) ex_order_fine)
     (shipping_sub_total ex_order_fine) ''SST'' =
     4325433929142548182839687398 / 100000000000000000000000000000 * (1999 / 100)"
    by (simp add: merchandise_contribution_def contribution_def item_taxes_def shipping_taxes_def
        program_eval dec_eval cong: let_weak_cong bind_logged_weak_cong)
  show "amount [(''GST'', 111122411 / 100000000),
           (''PST'', 216412044349749 / 100000000000000),
           (''QST'', 233751569797899981528 / 100000000000000000000),
           (''RST'', 113681820088605910077806256 / 100000000000000000000000000),
           (''SST'', 8646542424355953817496535109 / 10000000000000000000000000000)] ''SST'' \<noteq>
     4325433929142548182839687398 / 100000000000000000000000000000 * (1999 / 100)"
    by (simp add: amount_def)
qed

text \<open>
  C6, amended: with \<^verbatim>\<open>TAX_SHIPPING_DETAILS_SEPARATE\<close> off, the detail map that
  \<^verbatim>\<open>process\<close> returns holds for a tax code of the shipping breakdown the merchandise
  amount of the code plus its shipping amount, and for any other code the merchandise
  amount. The merchandise amount is accumulated from 0 over the taxable items in their
  order, every entry of the code adding its rate times the item subtotal, and the
  shipping amount likewise from the shipping breakdown and the shipping subtotal; every
  product and every sum is the one of the context, rounded to 28 significant digits.
  Where these amounts are the exact contributions and their sum needs no rounding, the
  detail is the merchandise contribution plus the shipping contribution. The keys of
  the map are the codes of the item breakdowns and of the shipping breakdown.
\<close>

theorem combined_details:
  assumes "\<not> TAX_SHIPPING_DETAILS_SEPARATE cfg"
    and "self' = (case order_arg of None \<Rightarrow> self | Some ord' \<Rightarrow> self\<lparr>order := Some ord'\<rparr>)"
    and "order self' = Some ord"
    and "items = filter (\<lambda>item. taxable (product item)) (orderitem_set ord)"
    and "snd (process db cfg self order_arg) = Inr (tax, tax_details)"
  shows "(\<forall>code. amount tax_details code =
            (if code \<in> fst ` set (shipping_taxes db cfg self' ord)
             then dec_add (merchandise_amount db cfg self' items code)
                    (accumulated (shipping_taxes db cfg self' ord) (shipping_sub_total ord) code 0)
             else merchandise_amount db cfg self' items code)) \<and>
         (\<forall>code. merchandise_amount db cfg self' items code =
                   merchandise_contribution db cfg self' items code \<and>
                 accumulated (shipping_taxes db cfg self' ord) (shipping_sub_total ord) code 0 =
                   contribution (shipping_taxes db cfg self' ord) (shipping_sub_total ord) code \<and>
                 dec_round (merchandise_contribution db cfg self' items code +
                            contribution (shipping_taxes db cfg self' ord) (shipping_sub_total ord) code) =
                   merchandise_contribution db cfg self' items code +
                   contribution (shipping_taxes db cfg self' ord) (shipping_sub_total ord) code \<longrightarrow>
                 amount tax_details code =
                   merchandise_contribution db cfg self' items code +
                   contribution (shipping_taxes db cfg self' ord) (shipping_sub_total ord) code) \<and>
         fst ` set tax_details =
            (\<Union>item\<in>set items. fst ` set (item_taxes db cfg self' item)) \<union>
            fst ` set (shipping_taxes db cfg self' ord)"
proof -
  let ?P = "process_items db cfg self' items (0, [])"
  from assms(2,3,4,5) obtain acc d where p: "snd ?P = Inr (acc, d)"
    by (cases "snd ?P") (auto simp: process_def Let_def snd_bind_logged)
  from assms(2,3,4,5) p obtain sv where s: "snd (shipping db cfg self' None True) = Inr sv"
    by (cases "snd (shipping db cfg self' None True)") (auto simp: process_def Let_def snd_bind_logged)
  let ?taxes = "shipping_taxes db cfg self' ord"
  let ?sd = "accumulate_details ?taxes (shipping_sub_total ord) []"
  from shipping_details_result[OF s assms(3)] obtain st where sv: "sv = ShipTaxDetails st ?sd"
    by blast
  from process_items_result[OF p]
  have am: "\<forall>c. amount d c = merchandise_amount db cfg self' items c"
    and ks: "fst ` set d = (\<Union>item\<in>set items. fst ` set (item_taxes db cfg self' item))"
    by (simp_all add: amount_None merchandise_amount_def)
  have dsd: "distinct (map fst ?sd)" by (rule accumulate_details_distinct) simp
  have "set (map fst ?sd) \<subseteq> fst ` set ?sd" by simp
  from combine_details_result[OF this dsd, of d] obtain td' where
    c: "combine_details (map fst ?sd) ?sd d = Inr td'"
    and cam: "\<forall>c. amount td' c =
                (if c \<in> set (map fst ?sd) then dec_add (amount d c) (amount ?sd c) else amount d c)"
    and cks: "fst ` set td' = fst ` set d \<union> set (map fst ?sd)"
    by blast
  have td: "tax_details = td'"
    using assms(1,2,3,4,5) p s sv c
    by (simp add: process_def Let_def snd_bind_logged unpack_shipping_def)
  have sda: "amount ?sd c = accumulated ?taxes (shipping_sub_total ord) c 0" for c
    by (simp add: accumulate_details_amount amount_None)
  have sdk: "fst ` set ?sd = fst ` set ?taxes"
    by (simp add: accumulate_details_keys)
  have main: "amount tax_details code =
            (if code \<in> fst ` set ?taxes
             then dec_add (merchandise_amount db cfg self' items code)
                    (accumulated ?taxes (shipping_sub_total ord) code 0)
             else merchandise_amount db cfg self' items code)" for code
    using cam am sda sdk by (simp add: td)
  have exact: "amount tax_details code =
                   merchandise_contribution db cfg self' items code +
                   contribution ?taxes (shipping_sub_total ord) code"
    if m: "merchandise_amount db cfg self' items code =
             merchandise_contribution db cfg self' items code"
      and a: "accumulated ?taxes (shipping_sub_total ord) code 0 =
             contribution ?taxes (shipping_sub_total ord) code"
      and r: "dec_round (merchandise_contribution db cfg self' items code +
                         contribution ?taxes (shipping_sub_total ord) code) =
             merchandise_contribution db cfg self' items code +
             contribution ?taxes (shipping_sub_total ord) code"
    for code
  proof (cases "code \<in> fst ` set ?taxes")
    case True
    then have "amount tax_details code =
        dec_add (merchandise_contribution db cfg self' items code)
          (contribution ?taxes (shipping_sub_total ord) code)"
      using main[of code] m a by simp
    then show ?thesis using r by (simp only: dec_add_def)
  next
    case False
    then have "accumulated ?taxes (shipping_sub_total ord) code 0 = 0"
      by (rule accumulated_absent)
    with a have "contribution ?taxes (shipping_sub_total ord) code = 0" by simp
    with False show ?thesis using main[of code] m by simp
  qed
  have keys: "fst ` set tax_details =
            (\<Union>item\<in>set items. fst ` set (item_taxes db cfg self' item)) \<union> fst ` set ?taxes"
    using cks ks sdk by (simp add: td)
  from main exact keys show ?thesis by blast
qed

theorem combined_details_witness:
  "snd (process ex_db (ex_cfg False) ex_self (Some ex_order)) =
     Inr (383 / 25, [(''GST'', 13 / 2), (''PST'', 441 / 50)]) \<and>
   merchandise_amount ex_db (ex_cfg False) (ex_self\<lparr>order := Some ex_order\<rparr>)
     (filter (\<lambda>item. taxable (product item)) (orderitem_set ex_order)) ''GST'' = 6 \<and>
   accumulated (shipping_taxes ex_db (ex_cfg False) (ex_self\<lparr>order := Some ex_order\<rparr>) ex_order)
     (shipping_sub_total ex_order) ''GST'' 0 = 1 / 2 \<and>
   merchandise_contribution ex_db (ex_cfg False) (ex_self\<lparr>order := Some ex_order\<rparr>)
     (filter (\<lambda>item. taxable (product item)) (orderitem_set ex_order)) ''GST'' +
   contribution (shipping_taxes ex_db (ex_cfg False) (ex_self\<lparr>order := Some ex_order\<rparr>) ex_order)
     (shipping_sub_total ex_order) ''GST'' = 13 / 2"
proof -
  have p: "snd (process ex_db (ex_cfg False) ex_self (Some ex_order)) =
     Inr (383 / 25, [(''GST'', 13 / 2), (''PST'', 441 / 50)])"
    by (simp add: program_eval dec_eval cong: let_weak_cong bind_logged_weak_cong)
  have ma: "merchandise_amount ex_db (ex_cfg False) (ex_self\<lparr>order := Some ex_order\<rparr>)
     (filter (\<lambda>item. taxable (product item)) (orderitem_set ex_order)) ''GST'' = 6"
    by (simp add: merchandise_amount_def accumulated_def item_taxes_def
        program_eval dec_eval cong: let_weak_cong bind_logged_weak_cong)
  have sa: "accumulated (shipping_taxes ex_db (ex_cfg False) (ex_self\<lparr>order := Some ex_order\<rparr>) ex_order)
     (shipping_sub_total ex_order) ''GST'' 0 = 1 / 2"
    by (simp add: accumulated_def shipping_taxes_def
        program_eval dec_eval cong: let_weak_cong bind_logged_weak_cong)
  have mc: "merchandise_contribution ex_db (ex_cfg False) (ex_self\<lparr>order := Some ex_order\<rparr>)
     (filter (\<lambda>item. taxable (product item)) (orderitem_set ex_order)) ''GST'' = 6"
    by (simp add: merchandise_contribution_def contribution_def item_taxes_def
        program_eval dec_eval cong: let_weak_cong bind_logged_weak_cong)
  have sc: "contribution (shipping_taxes ex_db (ex_cfg False) (ex_self\<lparr>order := Some ex_order\<rparr>) ex_order)
     (shipping_sub_total ex_order) ''GST'' = 1 / 2"
    by (simp add: contribution_def shipping_taxes_def
        program_eval dec_eval cong: let_weak_cong bind_logged_weak_cong)
  have r: "dec_round (6 + 1 / 2) = 6 + 1 / 2"
    by (simp add: dec_eval)
  have h1: "\<not> TAX_SHIPPING_DETAILS_SEPARATE (ex_cfg False)" by simp
  have h2: "ex_self\<lparr>order := Some ex_order\<rparr> =
      (case Some ex_order of None \<Rightarrow> ex_self | Some ord' \<Rightarrow> ex_self\<lparr>order := Some ord'\<rparr>)"
    by simp
  have h3: "order (ex_self\<lparr>order := Some ex_order\<rparr>) = Some ex_order" by simp
  note t = combined_details [OF h1 h2 h3 refl p]
  have e: "merchandise_amount ex_db (ex_cfg False) (ex_self\<lparr>order := Some ex_order\<rparr>)
        (filter (\<lambda>item. taxable (product item)) (orderitem_set ex_order)) ''GST'' =
      merchandise_contribution ex_db (ex_cfg False) (ex_self\<lparr>order := Some ex_order\<rparr>)
        (filter (\<lambda>item. taxable (product item)) (orderitem_set ex_order)) ''GST'' \<and>
      accumulated (shipping_taxes ex_db (ex_cfg False) (ex_self\<lparr>order := Some ex_order\<rparr>) ex_order)
        (shipping_sub_total ex_order) ''GST'' 0 =
      contribution (shipping_taxes ex_db (ex_cfg False) (ex_self\<lparr>order := Some ex_order\<rparr>) ex_order)
        (shipping_sub_total ex_order) ''GST'' \<and>
      dec_round
        (merchandise_contribution ex_db (ex_cfg False) (ex_self\<lparr>order := Some ex_order\<rparr>)
           (filter (\<lambda>item. taxable (product item)) (orderitem_set ex_order)) ''GST'' +
         contribution (shipping_taxes ex_db (ex_cfg False) (ex_self\<lparr>order := Some ex_order\<rparr>) ex_order)
           (shipping_sub_total ex_order) ''GST'') =
      merchandise_contribution ex_db (ex_cfg False) (ex_self\<lparr>order := Some ex_order\<rparr>)
        (filter (\<lambda>item. taxable (product item)) (orderitem_set ex_order)) ''GST'' +
      contribution (shipping_taxes ex_db (ex_cfg False) (ex_self\<lparr>order := Some ex_order\<rparr>) ex_order)
        (shipping_sub_total ex_order) ''GST''"
    by (simp only: ma sa mc sc r simp_thms)
  from t e
  have "amount [(''GST'', 13 / 2), (''PST'', 441 / 50)] ''GST'' =
      merchandise_contribution ex_db (ex_cfg False) (ex_self\<lparr>order := Some ex_order\<rparr>)
        (filter (\<lambda>item. taxable (product item)) (orderitem_set ex_order)) ''GST'' +
      contribution (shipping_taxes ex_db (ex_cfg False) (ex_self\<lparr>order := Some ex_order\<rparr>) ex_order)
        (shipping_sub_total ex_order) ''GST''"
    by blast
  moreover have "amount [(''GST'', 13 / 2), (''PST'', 441 / 50)] ''GST'' = 13 / 2"
    by (simp add: amount_def)
  ultimately have "merchandise_contribution ex_db (ex_cfg False) (ex_self\<lparr>order := Some ex_order\<rparr>)
        (filter (\<lambda>item. taxable (product item)) (orderitem_set ex_order)) ''GST'' +
      contribution (shipping_taxes ex_db (ex_cfg False) (ex_self\<lparr>order := Some ex_order\<rparr>) ex_order)
        (shipping_sub_total ex_order) ''GST'' = 13 / 2"
    by simp
  with p ma sa show ?thesis by (intro conjI)
qed

text \<open>
  C1: with \<^verbatim>\<open>TAX_SHIPPING_DETAILS_SEPARATE\<close> on, the claim expects the key
  \<^verbatim>\<open>'Shipping ' + taxcode\<close> with the shipping amount of the code. Line 255 reads
  \<^verbatim>\<open>ship_tax_details['taxCode']\<close>, the literal key, not \<^verbatim>\<open>ship_tax_details[taxcode]\<close>:
  for the example order the shipping details are \<open>GST \<mapsto> 0.50\<close> and \<^verbatim>\<open>process\<close> raises
  \<^verbatim>\<open>KeyError\<close> where the claim expects \<open>Shipping GST \<mapsto> 0.50\<close>.
\<close>

theorem separate_details_KeyError:
  "snd (shipping ex_db (ex_cfg True) (ex_self\<lparr>order := Some ex_order\<rparr>) None True) =
     Inr (ShipTaxDetails (1 / 2) [(''GST'', 1 / 2)]) \<and>
   snd (process ex_db (ex_cfg True) ex_self (Some ex_order)) = Inl KeyError"
proof
  show "snd (shipping ex_db (ex_cfg True) (ex_self\<lparr>order := Some ex_order\<rparr>) None True) =
     Inr (ShipTaxDetails (1 / 2) [(''GST'', 1 / 2)])"
    by (simp add: program_eval dec_eval cong: let_weak_cong bind_logged_weak_cong)
  show "snd (process ex_db (ex_cfg True) ex_self (Some ex_order)) = Inl KeyError"
    by (simp add: program_eval dec_eval cong: let_weak_cong bind_logged_weak_cong)
qed

end
